theory Spec2Isabelle
  imports Complex_Main "HOL-Library.AList" "HOL-Library.Char_ord" "HOL-Library.List_Lexorder"
begin

section \<open>Data model\<close>

text \<open>
  The simulation core of the repository (src/game/models) is embedded shallowly.
  The arithmetic of Python floats is exact arithmetic on \<^typ>\<open>real\<close> in these
  definitions, with two exceptions: \<open>allocate_budget_rounded\<close> and
  \<open>update_relation_rounded\<close> take the rounding applied after each floating-point
  operation as a parameter, so that with \<open>binary64\<close> (defined below) they compute
  on IEEE 754 doubles as the source does, and with the identity they are the
  exact versions. Statements that depend on rounding are made about the rounded
  versions. Every call of \<^verbatim>\<open>random.uniform\<close> / \<^verbatim>\<open>random.random\<close> becomes an
  explicit argument holding the value drawn. Mutable objects become records that
  are passed in and returned updated; the countries shared between the roster
  and the relation graph live in a store indexed by the (unique) country name.
\<close>

subsection \<open>Economy (src/game/models/economy.py)\<close>

text \<open>The attributes of class Economy, in the order \<^verbatim>\<open>__init__\<close> assigns them.
  The attribute \<^verbatim>\<open>population\<close> is called \<open>e_population\<close> here, since the
  country record below has a field of that name too.\<close>

record economy =
  gdp :: real
  e_population :: real
  tax_rate :: real
  government_budget :: real
  debt :: real
  inflation :: real
  unemployment :: real
  agriculture :: real
  industry :: real
  services :: real
  interest_rate :: real
  trade_balance :: real
  healthcare_spending :: real
  education_spending :: real
  military_spending :: real
  infrastructure_spending :: real
  welfare_spending :: real
  other_spending :: real

definition BASE_TAX_RATE :: real where "BASE_TAX_RATE = 0.15"
definition MIN_TAX_RATE :: real where "MIN_TAX_RATE = 0.05"
definition MAX_TAX_RATE :: real where "MAX_TAX_RATE = 0.50"
definition BASE_GDP_GROWTH :: real where "BASE_GDP_GROWTH = 0.02"

definition Economy_init :: "real \<Rightarrow> real \<Rightarrow> economy" where
  "Economy_init initial_gdp initial_population =
     \<lparr> gdp = initial_gdp,
       e_population = initial_population,
       tax_rate = BASE_TAX_RATE,
       government_budget = initial_gdp * 0.2,
       debt = 0,
       inflation = 0.02,
       unemployment = 0.05,
       agriculture = 0.15,
       industry = 0.35,
       services = 0.50,
       interest_rate = 0.03,
       trade_balance = 0,
       healthcare_spending = 0.15,
       education_spending = 0.20,
       military_spending = 0.10,
       infrastructure_spending = 0.20,
       welfare_spending = 0.15,
       other_spending = 0.20 \<rparr>"

definition calculate_tax_revenue :: "economy \<Rightarrow> real" where
  "calculate_tax_revenue e = gdp e * tax_rate e"

definition calculate_gdp_per_capita :: "economy \<Rightarrow> real" where
  "calculate_gdp_per_capita e = (if e_population e > 0 then gdp e / e_population e else 0)"

text \<open>\<^verbatim>\<open>update_gdp\<close>; \<open>noise\<close> is the value of \<^verbatim>\<open>random.uniform(-0.01, 0.01)\<close>.\<close>

definition update_gdp :: "economy \<Rightarrow> real \<Rightarrow> real \<Rightarrow> real \<Rightarrow> economy" where
  "update_gdp e growth_modifier stability_bonus noise =
     (let base_growth = BASE_GDP_GROWTH;
          unemployment_penalty = unemployment e * 0.5;
          inflation_effect =
            (if inflation e < 0.02 then 0.01
             else if inflation e < 0.05 then 0.005
             else - inflation e * 0.3);
          education_bonus = education_spending e * 0.1;
          infrastructure_bonus = infrastructure_spending e * 0.08;
          total_growth = (base_growth + stability_bonus + inflation_effect +
                          education_bonus + infrastructure_bonus - unemployment_penalty)
                         * growth_modifier + noise;
          gdp' = gdp e * (1 + total_growth)
      in e\<lparr> gdp := gdp', trade_balance := (total_growth - 0.02) * gdp' * 0.1 \<rparr>)"

definition set_tax_rate :: "economy \<Rightarrow> real \<Rightarrow> economy" where
  "set_tax_rate e new_rate = e\<lparr> tax_rate := max MIN_TAX_RATE (min MAX_TAX_RATE new_rate) \<rparr>"

text \<open>The keyword arguments of \<^verbatim>\<open>allocate_budget\<close> default to \<^verbatim>\<open>None\<close>: an
  omitted share is \<open>None\<close>, a given one \<open>Some v\<close>. The five assignments, then the
  normalisation on the sum of the five shares as they stand after them.
  \<open>allocate_budget\<close> computes in exact arithmetic; \<open>allocate_budget_rounded\<close> is
  the same body with the rounding \<open>rnd\<close> applied to the result of every addition,
  division, multiplication and subtraction of the source, in the order in which
  Python evaluates them (\<^verbatim>\<open>max\<close>, \<^verbatim>\<open>min\<close> and the comparison are exact).\<close>

definition set_share :: "real option \<Rightarrow> real \<Rightarrow> real" where
  "set_share arg current = (case arg of None \<Rightarrow> current | Some v \<Rightarrow> max 0 (min 1 v))"

definition allocate_budget ::
  "economy \<Rightarrow> real option \<Rightarrow> real option \<Rightarrow> real option \<Rightarrow> real option \<Rightarrow> real option \<Rightarrow> economy"
where
  "allocate_budget e healthcare education military infrastructure welfare =
     (let e1 = e\<lparr> healthcare_spending := set_share healthcare (healthcare_spending e),
                    education_spending := set_share education (education_spending e),
                    military_spending := set_share military (military_spending e),
                    infrastructure_spending := set_share infrastructure (infrastructure_spending e),
                    welfare_spending := set_share welfare (welfare_spending e) \<rparr>;
          total = healthcare_spending e1 + education_spending e1 + military_spending e1 +
                  infrastructure_spending e1 + welfare_spending e1;
          e2 = (if total > 1 then
                  (let scale = 1 / total
                   in e1\<lparr> healthcare_spending := healthcare_spending e1 * scale,
                          education_spending := education_spending e1 * scale,
                          military_spending := military_spending e1 * scale,
                          infrastructure_spending := infrastructure_spending e1 * scale,
                          welfare_spending := welfare_spending e1 * scale \<rparr>)
                else e1)
      in e2\<lparr> other_spending := max 0 (1 - total) \<rparr>)"

definition allocate_budget_rounded ::
  "(real \<Rightarrow> real) \<Rightarrow> economy \<Rightarrow> real option \<Rightarrow> real option \<Rightarrow> real option \<Rightarrow> real option
   \<Rightarrow> real option \<Rightarrow> economy"
where
  "allocate_budget_rounded rnd e healthcare education military infrastructure welfare =
     (let e1 = e\<lparr> healthcare_spending := set_share healthcare (healthcare_spending e),
                    education_spending := set_share education (education_spending e),
                    military_spending := set_share military (military_spending e),
                    infrastructure_spending := set_share infrastructure (infrastructure_spending e),
                    welfare_spending := set_share welfare (welfare_spending e) \<rparr>;
          total = rnd (rnd (rnd (rnd (healthcare_spending e1 + education_spending e1) +
                    military_spending e1) + infrastructure_spending e1) + welfare_spending e1);
          e2 = (if total > 1 then
                  (let scale = rnd (1 / total)
                   in e1\<lparr> healthcare_spending := rnd (healthcare_spending e1 * scale),
                          education_spending := rnd (education_spending e1 * scale),
                          military_spending := rnd (military_spending e1 * scale),
                          infrastructure_spending := rnd (infrastructure_spending e1 * scale),
                          welfare_spending := rnd (welfare_spending e1 * scale) \<rparr>)
                else e1)
      in e2\<lparr> other_spending := max 0 (rnd (1 - total)) \<rparr>)"

text \<open>\<^verbatim>\<open>update_budget\<close>, with the local \<^verbatim>\<open>spending = revenue\<close> and both debt
  branches kept as the source has them.\<close>

definition update_budget :: "economy \<Rightarrow> economy" where
  "update_budget e =
     (let revenue = calculate_tax_revenue e;
          spending = revenue;
          e1 = (if spending > revenue then e\<lparr> debt := debt e + (spending - revenue) \<rparr>
                else if revenue > spending then
                  (let debt_payment = min (debt e) ((revenue - spending) * 0.5)
                   in e\<lparr> debt := debt e - debt_payment \<rparr>)
                else e)
      in e1\<lparr> government_budget := revenue \<rparr>)"

definition get_economic_health :: "economy \<Rightarrow> real" where
  "get_economic_health e =
     (let gdp_per_capita = calculate_gdp_per_capita e;
          base_score = min 100 (gdp_per_capita / 500);
          unemployment_penalty = unemployment e * 100;
          inflation_bonus =
            (if inflation e < 0.02 then 10
             else if inflation e < 0.05 then 5
             else - inflation e * 200);
          debt_ratio = (if gdp e > 0 then debt e / gdp e else 0);
          debt_penalty = min 30 (debt_ratio * 50);
          health = base_score - unemployment_penalty + inflation_bonus - debt_penalty
      in max 0 (min 100 health))"

definition trigger_economic_event :: "economy \<Rightarrow> string \<Rightarrow> economy" where
  "trigger_economic_event e event_type =
     (if event_type = ''recession'' then
        e\<lparr> gdp := gdp e * 0.95, unemployment := unemployment e + 0.02 \<rparr>
      else if event_type = ''boom'' then
        e\<lparr> gdp := gdp e * 1.05, unemployment := max 0.02 (unemployment e - 0.01) \<rparr>
      else if event_type = ''market_crash'' then
        e\<lparr> gdp := gdp e * 0.9, unemployment := unemployment e + 0.03 \<rparr>
      else if event_type = ''tech_breakthrough'' then
        e\<lparr> gdp := gdp e * 1.03, unemployment := max 0.02 (unemployment e - 0.005) \<rparr>
      else e)"

subsection \<open>Population (src/game/models/population.py)\<close>

record population =
  total :: real
  happiness :: real
  health :: real
  education :: real
  growth_rate :: real
  children :: real
  adults :: real
  elderly :: real
  literacy_rate :: real
  life_expectancy :: real
  birth_rate :: real
  death_rate :: real
  healthcare_satisfaction :: real
  education_satisfaction :: real
  economic_satisfaction :: real
  security_satisfaction :: real

definition BASE_POPULATION_GROWTH :: real where "BASE_POPULATION_GROWTH = 0.01"
definition MAX_POPULATION_GROWTH :: real where "MAX_POPULATION_GROWTH = 0.03"
definition BASE_HAPPINESS :: real where "BASE_HAPPINESS = 50"
definition MIN_HAPPINESS :: real where "MIN_HAPPINESS = 0"
definition MAX_HAPPINESS :: real where "MAX_HAPPINESS = 100"

definition Population_init :: "real \<Rightarrow> population" where
  "Population_init initial_population =
     \<lparr> total = initial_population,
       happiness = BASE_HAPPINESS,
       health = 70,
       education = 60,
       growth_rate = BASE_POPULATION_GROWTH,
       children = 0.25,
       adults = 0.65,
       elderly = 0.10,
       literacy_rate = 0.85,
       life_expectancy = 75,
       birth_rate = 0.015,
       death_rate = 0.008,
       healthcare_satisfaction = 50,
       education_satisfaction = 50,
       economic_satisfaction = 50,
       security_satisfaction = 50 \<rparr>"

text \<open>\<^verbatim>\<open>update_population\<close>: the assignments in source order, each reading the
  fields as the previous ones left them. The spending parameters are named
  \<open>healthcare_spend\<close>, ... because \<open>healthcare_spending\<close> is a field of the economy.\<close>

definition update_population ::
  "population \<Rightarrow> real \<Rightarrow> real \<Rightarrow> real \<Rightarrow> real \<Rightarrow> real \<Rightarrow> population"
where
  "update_population p healthcare_spend education_spend welfare_spend economic_health stab =
     (let healthcare_effect = healthcare_spend * 50;
          p1 = p\<lparr> health := min 100 (health p + (healthcare_effect - 70) * 0.01),
                 healthcare_satisfaction := min 100 (healthcare_spend * 100) \<rparr>;
          education_effect = education_spend * 50;
          p2 = p1\<lparr> education := min 100 (education p1 + (education_effect - 60) * 0.01),
                   education_satisfaction := min 100 (education_spend * 100) \<rparr>;
          p3 = p2\<lparr> economic_satisfaction := economic_health \<rparr>;
          p4 = p3\<lparr> security_satisfaction := min 100 (stab * 100) \<rparr>;
          p5 = p4\<lparr> happiness := (healthcare_satisfaction p4 + education_satisfaction p4 +
                                  economic_satisfaction p4 + security_satisfaction p4) / 4 \<rparr>;
          base_growth = birth_rate p5 - death_rate p5;
          health_modifier = (health p5 - 70) / 100;
          happiness_modifier = (happiness p5 - 50) / 200;
          p6 = p5\<lparr> growth_rate := max 0 (min MAX_POPULATION_GROWTH
                         (base_growth + health_modifier * 0.005 + happiness_modifier * 0.003)) \<rparr>;
          p7 = p6\<lparr> total := total p6 * (1 + growth_rate p6) \<rparr>
      in p7\<lparr> life_expectancy := 70 + (health p7 - 70) * 0.2,
             literacy_rate := min 1 (0.5 + education p7 * 0.005) \<rparr>)"

text \<open>\<^verbatim>\<open>handle_event\<close>; \<open>d1\<close>, \<open>d2\<close>, \<open>d3\<close> are the values of the calls of
  \<^verbatim>\<open>random.uniform\<close> of the branch taken, in source order.\<close>

definition handle_event :: "population \<Rightarrow> string \<Rightarrow> real \<Rightarrow> real \<Rightarrow> real \<Rightarrow> population" where
  "handle_event p event_type d1 d2 d3 =
     (if event_type = ''epidemic'' then
        p\<lparr> health := health p - d1, happiness := happiness p - d2, total := total p * d3 \<rparr>
      else if event_type = ''baby_boom'' then
        p\<lparr> birth_rate := birth_rate p + 0.005, children := children p + 0.02 \<rparr>
      else if event_type = ''brain_drain'' then
        p\<lparr> education := education p - d1, total := total p * d2 \<rparr>
      else if event_type = ''immigration_wave'' then
        p\<lparr> total := total p * d1, adults := adults p + 0.01 \<rparr>
      else p)"

definition get_approval_rating :: "population \<Rightarrow> real" where
  "get_approval_rating p =
     (let approval = economic_satisfaction p * 0.35 + healthcare_satisfaction p * 0.25 +
                     education_satisfaction p * 0.20 + security_satisfaction p * 0.20
      in max 0 (min 100 approval))"

definition trigger_protest_risk :: "population \<Rightarrow> real" where
  "trigger_protest_risk p =
     (let dissatisfaction = 100 - happiness p;
          base_risk = dissatisfaction / 100;
          security_modifier = (100 - security_satisfaction p) / 200;
          protest_risk = base_risk + security_modifier
      in min 1 protest_risk)"

subsection \<open>Government (src/game/models/government.py, src/game/constants.py)\<close>

text \<open>The exceptions the modelled code can raise.\<close>

datatype error = KeyError | ValueError | ZeroDivisionError

text \<open>\<^verbatim>\<open>GOVERNMENT_TYPES\<close> is a dictionary with four string keys. The attribute
  \<^verbatim>\<open>Government.type\<close> only ever holds one of them (the constructor raises
  \<^verbatim>\<open>KeyError\<close> on any other string, \<^verbatim>\<open>change_government_type\<close> tests membership
  first), so the field is the datatype \<open>gov_kind\<close> and the strings are looked up
  at those two entry points.\<close>

datatype gov_kind = Democracy | Monarchy | Dictatorship | Republic

definition gov_kind_of :: "string \<Rightarrow> gov_kind option" where
  "gov_kind_of s =
     (if s = ''democracy'' then Some Democracy
      else if s = ''monarchy'' then Some Monarchy
      else if s = ''dictatorship'' then Some Dictatorship
      else if s = ''republic'' then Some Republic
      else None)"

fun election_frequency :: "gov_kind \<Rightarrow> int" where
  "election_frequency Democracy = 4"
| "election_frequency Monarchy = 0"
| "election_frequency Dictatorship = 0"
| "election_frequency Republic = 6"

fun corruption_resistance :: "gov_kind \<Rightarrow> real" where
  "corruption_resistance Democracy = 0.8"
| "corruption_resistance Monarchy = 0.5"
| "corruption_resistance Dictatorship = 0.3"
| "corruption_resistance Republic = 0.7"

fun stability_bonus :: "gov_kind \<Rightarrow> real" where
  "stability_bonus Democracy = 0.1"
| "stability_bonus Monarchy = 0.2"
| "stability_bonus Dictatorship = - 0.1"
| "stability_bonus Republic = 0.05"

fun growth_modifier :: "gov_kind \<Rightarrow> real" where
  "growth_modifier Democracy = 1.0"
| "growth_modifier Monarchy = 0.9"
| "growth_modifier Dictatorship = 1.1"
| "growth_modifier Republic = 1.05"

record party =
  party_name :: string
  ideology :: string
  popularity :: real
  corruption_level :: real
  tax_preference :: real
  welfare_preference :: real
  military_preference :: real

text \<open>\<^verbatim>\<open>PoliticalParty.__init__\<close>; the four draws are the corruption level and the
  three policy preferences (their ranges depend on the ideology).\<close>

definition PoliticalParty_init :: "string \<Rightarrow> string \<Rightarrow> real \<Rightarrow> real \<times> real \<times> real \<times> real \<Rightarrow> party" where
  "PoliticalParty_init nm ideo pop draws =
     (case draws of (c, t, w, m) \<Rightarrow>
        \<lparr> party_name = nm, ideology = ideo, popularity = pop, corruption_level = c,
          tax_preference = t, welfare_preference = w, military_preference = m \<rparr>)"

text \<open>The roster \<^verbatim>\<open>self.parties\<close> is a list of party objects and
  \<^verbatim>\<open>self.ruling_party\<close> a reference to one of them: it is modelled as the index
  of that party in the roster, so that a change of the ruling party's popularity
  is a change of the roster entry, as in the source. \<^verbatim>\<open>self.type\<close> is \<open>gtype\<close>.\<close>

record government =
  gtype :: gov_kind
  stability :: real
  corruption :: real
  years_in_power :: real
  next_election :: int
  parties :: "party list"
  ruling_party :: nat
  laws :: "string \<rightharpoonup> bool"
  bureaucracy_efficiency :: real
  transparency :: real

text \<open>\<^verbatim>\<open>max(xs, key=...)\<close> returns the first element with the greatest key and
  raises \<^verbatim>\<open>ValueError\<close> on an empty list: the index of the first greatest value.\<close>

fun first_max_index :: "real list \<Rightarrow> nat option" where
  "first_max_index [] = None"
| "first_max_index (x # xs) =
     (case first_max_index xs of
        None \<Rightarrow> Some 0
      | Some j \<Rightarrow> if xs ! j > x then Some (Suc j) else Some 0)"

definition initial_laws :: "string \<rightharpoonup> bool" where
  "initial_laws =
     [''freedom_of_press'' \<mapsto> True,
      ''universal_healthcare'' \<mapsto> False,
      ''mandatory_education'' \<mapsto> True,
      ''death_penalty'' \<mapsto> False,
      ''gun_control'' \<mapsto> True,
      ''environmental_protection'' \<mapsto> True]"

definition initial_parties ::
  "real \<times> real \<times> real \<times> real \<Rightarrow> real \<times> real \<times> real \<times> real \<Rightarrow>
   real \<times> real \<times> real \<times> real \<Rightarrow> real \<times> real \<times> real \<times> real \<Rightarrow> party list" where
  "initial_parties d1 d2 d3 d4 =
     [PoliticalParty_init ''Progressive Party'' ''left'' 0.25 d1,
      PoliticalParty_init ''Conservative Party'' ''right'' 0.25 d2,
      PoliticalParty_init ''Centrist Alliance'' ''center'' 0.30 d3,
      PoliticalParty_init ''Nationalist Party'' ''right'' 0.20 d4]"

definition Government_init ::
  "string \<Rightarrow> real \<times> real \<times> real \<times> real \<Rightarrow> real \<times> real \<times> real \<times> real \<Rightarrow>
   real \<times> real \<times> real \<times> real \<Rightarrow> real \<times> real \<times> real \<times> real \<Rightarrow> error + government" where
  "Government_init government_type d1 d2 d3 d4 =
     (case gov_kind_of government_type of
        None \<Rightarrow> Inl KeyError
      | Some k \<Rightarrow>
          (let ps = initial_parties d1 d2 d3 d4
           in case first_max_index (map popularity ps) of
                None \<Rightarrow> Inl ValueError
              | Some r \<Rightarrow>
                  Inr \<lparr> gtype = k, stability = 70, corruption = 20, years_in_power = 0,
                        next_election = election_frequency k, parties = ps, ruling_party = r,
                        laws = initial_laws, bureaucracy_efficiency = 60, transparency = 50 \<rparr>))"

text \<open>\<^verbatim>\<open>update_party_popularity\<close>: the ruling party's entry is changed first; the
  loop over the other parties compares object identity, here the roster index.\<close>

definition update_party_popularity :: "government \<Rightarrow> real \<Rightarrow> real \<Rightarrow> government" where
  "update_party_popularity g approval economic_health =
     (let ruling_performance = (approval + economic_health) / 2;
          performance_change = (ruling_performance - 50) * 0.002;
          r = ruling_party g;
          ps1 = (parties g)[r := (parties g ! r)\<lparr> popularity :=
                   popularity (parties g ! r) + performance_change \<rparr>];
          ps2 = (if performance_change < 0 then
                   map (\<lambda>(i, p). if i \<noteq> r
                          then p\<lparr> popularity := popularity p +
                                  \<bar>performance_change\<bar> / real (length ps1) \<rparr>
                          else p) (enumerate 0 ps1)
                 else ps1);
          total_popularity = sum_list (map popularity ps2);
          ps3 = (if total_popularity > 0 then
                   map (\<lambda>p. p\<lparr> popularity := popularity p / total_popularity \<rparr>) ps2
                 else ps2)
      in g\<lparr> parties := ps3 \<rparr>)"

text \<open>\<^verbatim>\<open>hold_election\<close>; \<open>noise i\<close> is the value of \<^verbatim>\<open>random.uniform(-0.05, 0.05)\<close>
  drawn for the party at index \<open>i\<close>. Dividing by a zero total raises.\<close>

definition hold_election :: "government \<Rightarrow> (nat \<Rightarrow> real) \<Rightarrow> error + government" where
  "hold_election g noise =
     (if election_frequency (gtype g) = 0 then Inr g
      else
        (let ps1 = map (\<lambda>(i, p). p\<lparr> popularity := popularity p + noise i \<rparr>)
                       (enumerate 0 (parties g));
             total = sum_list (map popularity ps1)
         in if total = 0 \<and> ps1 \<noteq> [] then Inl ZeroDivisionError
            else
              (let ps2 = map (\<lambda>p. p\<lparr> popularity := max 0 (popularity p / total) \<rparr>) ps1
               in case first_max_index (map popularity ps2) of
                    None \<Rightarrow> Inl ValueError
                  | Some winner \<Rightarrow>
                      (let g1 = g\<lparr> parties := ps2 \<rparr>;
                           g2 = (if winner \<noteq> ruling_party g1 then
                                   g1\<lparr> ruling_party := winner, years_in_power := 0,
                                       stability := stability g1 - 5 \<rparr>
                                 else g1)
                       in Inr (g2\<lparr> next_election := election_frequency (gtype g2) \<rparr>)))))"

text \<open>The part of \<^verbatim>\<open>update_government\<close> before the election check; \<open>draw\<close> is the
  value of \<^verbatim>\<open>random.uniform(-0.5, 1.0)\<close>.\<close>

definition update_government_metrics :: "government \<Rightarrow> real \<Rightarrow> real \<Rightarrow> real \<Rightarrow> government" where
  "update_government_metrics g population_approval economic_health draw =
     (let g1 = g\<lparr> years_in_power := years_in_power g + 1 / 12 \<rparr>;
          approval_effect = (population_approval - 50) * 0.2;
          g2 = g1\<lparr> stability := stability g1 + approval_effect * 0.1 \<rparr>;
          g3 = g2\<lparr> stability := stability g2 + stability_bonus (gtype g2) \<rparr>;
          corruption_change = draw * (1 - corruption_resistance (gtype g3));
          g4 = g3\<lparr> corruption := max 0 (min 100 (corruption g3 + corruption_change)) \<rparr>;
          g5 = g4\<lparr> stability := stability g4 - corruption g4 * 0.1 \<rparr>;
          g6 = g5\<lparr> stability := max 0 (min 100 (stability g5)) \<rparr>
      in update_party_popularity g6 population_approval economic_health)"

definition election_due :: "government \<Rightarrow> bool" where
  "election_due g \<longleftrightarrow> next_election g \<le> 0 \<and> election_frequency (gtype g) > 0"

definition update_government ::
  "government \<Rightarrow> real \<Rightarrow> real \<Rightarrow> real \<Rightarrow> (nat \<Rightarrow> real) \<Rightarrow> error + government" where
  "update_government g population_approval economic_health draw noise =
     (let g1 = update_government_metrics g population_approval economic_health draw
      in if election_due g1 then hold_election g1 noise else Inr g1)"

text \<open>\<^verbatim>\<open>change_government_type\<close>; \<open>draw\<close> is the value of \<^verbatim>\<open>random.uniform(10, 30)\<close>.\<close>

definition change_government_type :: "government \<Rightarrow> string \<Rightarrow> real \<Rightarrow> government" where
  "change_government_type g new_type draw =
     (case gov_kind_of new_type of
        None \<Rightarrow> g
      | Some k \<Rightarrow>
          (let old_type = gtype g;
               g1 = g\<lparr> gtype := k, years_in_power := 0, next_election := election_frequency k \<rparr>
           in if old_type \<noteq> k then g1\<lparr> stability := max 0 (stability g1 - draw) \<rparr> else g1))"

text \<open>\<^verbatim>\<open>pass_law\<close>; \<open>draw\<close> is the value of \<^verbatim>\<open>random.uniform(-2, 2)\<close>.\<close>

definition pass_law :: "government \<Rightarrow> string \<Rightarrow> bool \<Rightarrow> real \<Rightarrow> government" where
  "pass_law g law_name v draw =
     (case laws g law_name of
        None \<Rightarrow> g
      | Some old_value \<Rightarrow>
          (let g1 = g\<lparr> laws := (laws g)(law_name \<mapsto> v) \<rparr>
           in if old_value \<noteq> v then g1\<lparr> stability := stability g1 + draw \<rparr> else g1))"

text \<open>\<^verbatim>\<open>trigger_political_event\<close>; \<open>d1\<close>, \<open>d2\<close>, \<open>d3\<close> are the random values of the
  branch taken in source order (for a coup attempt \<open>d1\<close> is \<^verbatim>\<open>random.random()\<close> and
  \<open>d2\<close> the draw inside \<^verbatim>\<open>change_government_type\<close>).\<close>

definition trigger_political_event :: "government \<Rightarrow> string \<Rightarrow> real \<Rightarrow> real \<Rightarrow> real \<Rightarrow> government" where
  "trigger_political_event g event_type d1 d2 d3 =
     (if event_type = ''corruption_scandal'' then
        (let r = ruling_party g
         in g\<lparr> corruption := corruption g + d1, stability := stability g - d2,
               parties := (parties g)[r := (parties g ! r)\<lparr> popularity :=
                             popularity (parties g ! r) * 0.9 \<rparr>] \<rparr>)
      else if event_type = ''successful_reform'' then
        g\<lparr> corruption := corruption g - d1, stability := stability g + d2,
           bureaucracy_efficiency := bureaucracy_efficiency g + d3 \<rparr>
      else if event_type = ''coup_attempt'' then
        (if stability g < 30 then
           (if d1 < 0.3 then (change_government_type g ''dictatorship'' d2)\<lparr> stability := 20 \<rparr>
            else g\<lparr> stability := stability g - 15 \<rparr>)
         else g\<lparr> stability := stability g - 5 \<rparr>)
      else if event_type = ''protest'' then
        g\<lparr> stability := stability g - d1 \<rparr>
      else g)"

definition get_growth_modifier :: "government \<Rightarrow> real" where
  "get_growth_modifier g =
     (let base_modifier = growth_modifier (gtype g);
          efficiency_bonus = (bureaucracy_efficiency g - 50) * 0.002;
          stability_bonus' = (stability g - 50) * 0.001;
          corruption_penalty = corruption g * 0.001
      in base_modifier + efficiency_bonus + stability_bonus' - corruption_penalty)"

subsection \<open>Country (src/game/models/country.py)\<close>

text \<open>The attributes of a country that the diplomacy system reads or writes: its
  name, its position and traits (read when a relation is initialised), its
  military strength and its three sub-models. The colour, the resources and the
  event log are not touched by any function modelled here and are left out.\<close>

record country =
  name :: string
  x :: real
  y :: real
  population :: population
  economy :: economy
  government :: government
  traits :: "string list"
  military_strength :: real
  is_player :: bool

definition get_power_score :: "country \<Rightarrow> real" where
  "get_power_score c =
     (let economic_power = gdp (economy c) / 1000000;
          military_power = military_strength c * (total (population c) / 1000000);
          stability_factor = stability (government c) / 100
      in (economic_power + military_power) * stability_factor)"

subsection \<open>Diplomacy (src/game/models/diplomacy.py)\<close>

datatype RelationType = HOSTILE | POOR | NEUTRAL | FRIENDLY | ALLIED

datatype DiplomaticAction =
  IMPROVE_RELATIONS | WORSEN_RELATIONS | TRADE_DEAL | ALLIANCE |
  WAR_DECLARATION | PEACE_TREATY | SANCTIONS | FOREIGN_AID

fun action_value :: "DiplomaticAction \<Rightarrow> string" where
  "action_value IMPROVE_RELATIONS = ''improve_relations''"
| "action_value WORSEN_RELATIONS = ''worsen_relations''"
| "action_value TRADE_DEAL = ''trade_deal''"
| "action_value ALLIANCE = ''alliance''"
| "action_value WAR_DECLARATION = ''war_declaration''"
| "action_value PEACE_TREATY = ''peace_treaty''"
| "action_value SANCTIONS = ''sanctions''"
| "action_value FOREIGN_AID = ''foreign_aid''"

text \<open>A relation refers to its two countries by name; the country objects are
  in the store of the world below.\<close>

record relation =
  country1 :: string
  country2 :: string
  relation_value :: real
  trade_deal :: bool
  alliance :: bool
  at_war :: bool
  sanctions :: bool
  trade_volume :: real

text \<open>\<^verbatim>\<open>DiplomaticRelation.__init__\<close> with \<^verbatim>\<open>initialize_relation\<close>;
  \<open>random_factor\<close> is the value of \<^verbatim>\<open>random.uniform(-20, 20)\<close>.\<close>

definition DiplomaticRelation_init :: "country \<Rightarrow> country \<Rightarrow> real \<Rightarrow> relation" where
  "DiplomaticRelation_init c1 c2 random_factor =
     (let distance = sqrt ((x c1 - x c2)\<^sup>2 + (y c1 - y c2)\<^sup>2);
          distance_factor = max (- 10) (- distance / 10);
          t1 = (if ''peaceful'' \<in> set (traits c1) \<and> ''peaceful'' \<in> set (traits c2)
                then 10 else 0);
          trait_factor = (if ''militaristic'' \<in> set (traits c1) \<and> ''militaristic'' \<in> set (traits c2)
                          then t1 - 5 else t1);
          v = distance_factor + trait_factor + random_factor
      in \<lparr> country1 = name c1, country2 = name c2,
           relation_value = max (- 100) (min 100 v),
           trade_deal = False, alliance = False, at_war = False, sanctions = False,
           trade_volume = 0 \<rparr>)"

definition get_relation_type :: "relation \<Rightarrow> RelationType" where
  "get_relation_type r =
     (if at_war r then HOSTILE
      else if alliance r then ALLIED
      else if relation_value r \<ge> 60 then FRIENDLY
      else if relation_value r \<le> - 60 then POOR
      else NEUTRAL)"

definition update_relation :: "relation \<Rightarrow> real \<Rightarrow> relation" where
  "update_relation r change =
     (let r1 = r\<lparr> relation_value := relation_value r + change \<rparr>;
          r2 = r1\<lparr> relation_value := max (- 100) (min 100 (relation_value r1)) \<rparr>;
          r3 = (if relation_value r2 < - 80 \<and> alliance r2 then r2\<lparr> alliance := False \<rparr> else r2)
      in if relation_value r3 < - 90 \<and> trade_deal r3 then r3\<lparr> trade_deal := False \<rparr> else r3)"

text \<open>\<^verbatim>\<open>update_relation\<close> with the rounding \<open>rnd\<close> applied to the sum
  \<^verbatim>\<open>self.relation_value + change\<close>, the one floating-point operation of the
  method.\<close>

definition update_relation_rounded :: "(real \<Rightarrow> real) \<Rightarrow> relation \<Rightarrow> real \<Rightarrow> relation" where
  "update_relation_rounded rnd r change =
     (let r1 = r\<lparr> relation_value := rnd (relation_value r + change) \<rparr>;
          r2 = r1\<lparr> relation_value := max (- 100) (min 100 (relation_value r1)) \<rparr>;
          r3 = (if relation_value r2 < - 80 \<and> alliance r2 then r2\<lparr> alliance := False \<rparr> else r2)
      in if relation_value r3 < - 90 \<and> trade_deal r3 then r3\<lparr> trade_deal := False \<rparr> else r3)"

text \<open>An entry of the log \<^verbatim>\<open>recent_actions\<close>.\<close>

record action_entry =
  actor :: string
  target :: string
  action :: string
  message :: string
  player_initiated :: bool

text \<open>The state the diplomacy system works on. \<open>countries\<close> is the object store:
  the country object of each name (the names of a roster are unique, and the
  functions below receive country objects, here their names). \<open>relations\<close> is the
  dictionary \<^verbatim>\<open>self.relations\<close> in insertion order, which is the order in which
  \<^verbatim>\<open>resolve_wars\<close> visits it. The lists \<^verbatim>\<open>wars\<close>, \<^verbatim>\<open>trade_deals\<close> and
  \<^verbatim>\<open>alliances\<close> of the source are never read or written and are left out.\<close>

record world =
  countries :: "string \<Rightarrow> country"
  relations :: "((string \<times> string) \<times> relation) list"
  recent_actions :: "action_entry list"

text \<open>\<^verbatim>\<open>tuple(sorted([a, b]))\<close>.\<close>

definition get_relation_key :: "string \<Rightarrow> string \<Rightarrow> string \<times> string" where
  "get_relation_key country1_name country2_name =
     (if country2_name < country1_name then (country2_name, country1_name)
      else (country1_name, country2_name))"

definition get_relation :: "world \<Rightarrow> string \<Rightarrow> string \<Rightarrow> relation option" where
  "get_relation w country1_name country2_name =
     map_of (relations w) (get_relation_key country1_name country2_name)"

text \<open>Writes through the references: to the relation object found under a key,
  and to the economy, the population and the government of the country object
  of a name.\<close>

definition set_relation :: "world \<Rightarrow> string \<times> string \<Rightarrow> relation \<Rightarrow> world" where
  "set_relation w k r = w\<lparr> relations := AList.update k r (relations w) \<rparr>"

definition map_economy :: "world \<Rightarrow> string \<Rightarrow> (economy \<Rightarrow> economy) \<Rightarrow> world" where
  "map_economy w n f =
     w\<lparr> countries := (countries w)(n := (countries w n)\<lparr> economy := f (economy (countries w n)) \<rparr>) \<rparr>"

definition map_population :: "world \<Rightarrow> string \<Rightarrow> (population \<Rightarrow> population) \<Rightarrow> world" where
  "map_population w n f =
     w\<lparr> countries := (countries w)(n := (countries w n)\<lparr> population := f (population (countries w n)) \<rparr>) \<rparr>"

definition map_government :: "world \<Rightarrow> string \<Rightarrow> (government \<Rightarrow> government) \<Rightarrow> world" where
  "map_government w n f =
     w\<lparr> countries := (countries w)(n := (countries w n)\<lparr> government := f (government (countries w n)) \<rparr>) \<rparr>"

text \<open>The effect of one action on the relation \<open>r\<close> found under key \<open>k\<close>: the
  success flag, the message and the new world. The statements of each branch
  are applied in source order, each country being read from the store as the
  previous statements left it. \<open>improvement\<close> is the value of
  \<^verbatim>\<open>random.uniform(5, 15)\<close>, used by \<open>IMPROVE_RELATIONS\<close> only. The action
  \<open>WORSEN_RELATIONS\<close> has no branch in the source: it fails with an empty message.\<close>

definition apply_action ::
  "world \<Rightarrow> string \<times> string \<Rightarrow> relation \<Rightarrow> string \<Rightarrow> string \<Rightarrow> DiplomaticAction \<Rightarrow> real
   \<Rightarrow> bool \<times> string \<times> world" where
  "apply_action w k r a t act improvement =
     (case act of
        IMPROVE_RELATIONS \<Rightarrow>
          (True, a @ '' improves relations with '' @ t,
           set_relation w k (update_relation r improvement))
      | WORSEN_RELATIONS \<Rightarrow> (False, [], w)
      | TRADE_DEAL \<Rightarrow>
          (if relation_value r > 20 \<and> \<not> at_war r then
             (let w1 = set_relation w k (r\<lparr> trade_deal := True \<rparr>);
                  trade_benefit = min (gdp (economy (countries w1 a)))
                                      (gdp (economy (countries w1 t))) * 0.02;
                  w2 = map_economy w1 a (\<lambda>e. e\<lparr> gdp := gdp e + trade_benefit \<rparr>);
                  w3 = map_economy w2 t (\<lambda>e. e\<lparr> gdp := gdp e + trade_benefit \<rparr>)
              in (True, a @ '' signs trade deal with '' @ t, w3))
           else (False, ''Trade deal rejected - insufficient relations'', w))
      | ALLIANCE \<Rightarrow>
          (if relation_value r > 50 \<and> \<not> at_war r then
             (True, a @ '' forms alliance with '' @ t,
              set_relation w k (update_relation (r\<lparr> alliance := True \<rparr>) 10))
           else (False, ''Alliance rejected - insufficient relations'', w))
      | WAR_DECLARATION \<Rightarrow>
          (if \<not> alliance r then
             (let r1 = r\<lparr> at_war := True, alliance := False, trade_deal := False \<rparr>;
                  w1 = set_relation w k (update_relation r1 (- 30));
                  w2 = map_economy w1 a (\<lambda>e. e\<lparr> military_spending := military_spending e + 0.05 \<rparr>);
                  w3 = map_economy w2 t (\<lambda>e. e\<lparr> military_spending := military_spending e + 0.05 \<rparr>)
              in (True, a @ '' declares war on '' @ t @ ''!'', w3))
           else (False, ''Cannot declare war on ally'', w))
      | PEACE_TREATY \<Rightarrow>
          (if at_war r then
             (let w1 = set_relation w k (update_relation (r\<lparr> at_war := False \<rparr>) 20);
                  w2 = map_economy w1 a
                         (\<lambda>e. e\<lparr> military_spending := max 0.05 (military_spending e - 0.05) \<rparr>);
                  w3 = map_economy w2 t
                         (\<lambda>e. e\<lparr> military_spending := max 0.05 (military_spending e - 0.05) \<rparr>)
              in (True, a @ '' signs peace treaty with '' @ t, w3))
           else (False, ''No active war to end'', w))
      | SANCTIONS \<Rightarrow>
          (if \<not> alliance r \<and> relation_value r < 0 then
             (let r1 = r\<lparr> sanctions := True, trade_deal := False \<rparr>;
                  w1 = set_relation w k (update_relation r1 (- 10));
                  w2 = map_economy w1 t (\<lambda>e. e\<lparr> gdp := gdp e * 0.98 \<rparr>);
                  w3 = map_population w2 t (\<lambda>p. p\<lparr> happiness := happiness p - 5 \<rparr>)
              in (True, a @ '' imposes sanctions on '' @ t, w3))
           else (False, ''Cannot impose sanctions'', w))
      | FOREIGN_AID \<Rightarrow>
          (if gdp (economy (countries w a)) > gdp (economy (countries w t)) * 2 then
             (let aid_amount = gdp (economy (countries w a)) * 0.01;
                  w1 = map_economy w a (\<lambda>e. e\<lparr> gdp := gdp e - aid_amount \<rparr>);
                  w2 = map_economy w1 t (\<lambda>e. e\<lparr> gdp := gdp e + aid_amount \<rparr>);
                  w3 = set_relation w2 k (update_relation r 15)
              in (True, a @ '' provides foreign aid to '' @ t, w3))
           else (False, ''Insufficient resources for foreign aid'', w)))"

text \<open>\<^verbatim>\<open>perform_diplomatic_action\<close>: \<open>a\<close> and \<open>t\<close> are the names of the actor and the
  target country. Returns the pair \<^verbatim>\<open>(success, message)\<close> and the new state.\<close>

definition perform_diplomatic_action ::
  "world \<Rightarrow> string \<Rightarrow> string \<Rightarrow> DiplomaticAction \<Rightarrow> bool \<Rightarrow> real \<Rightarrow> bool \<times> string \<times> world" where
  "perform_diplomatic_action w a t act by_player improvement =
     (case get_relation w a t of
        None \<Rightarrow> (False, ''No diplomatic relation exists'', w)
      | Some r \<Rightarrow>
          (case apply_action w (get_relation_key a t) r a t act improvement of
             (success, msg, w1) \<Rightarrow>
               if success then
                 (success, msg,
                  w1\<lparr> recent_actions := recent_actions w1 @
                        [\<lparr> actor = a, target = t, action = action_value act,
                           message = msg, player_initiated = by_player \<rparr>] \<rparr>)
               else (success, msg, w1)))"

text \<open>The body of the loop of \<^verbatim>\<open>resolve_wars\<close> for one relation; \<open>draw\<close> is the
  value of \<^verbatim>\<open>random.random()\<close>. The strengths are computed before the attrition.\<close>

definition resolve_war :: "world \<Rightarrow> string \<times> string \<Rightarrow> relation \<Rightarrow> real \<Rightarrow> world" where
  "resolve_war w k r draw =
     (if at_war r then
        (let c1 = country1 r; c2 = country2 r;
             country1_strength = military_strength (countries w c1) *
                                   (stability (government (countries w c1)) / 100);
             country2_strength = military_strength (countries w c2) *
                                   (stability (government (countries w c2)) / 100);
             w1 = map_economy w c1 (\<lambda>e. e\<lparr> gdp := gdp e * 0.999 \<rparr>);
             w2 = map_economy w1 c2 (\<lambda>e. e\<lparr> gdp := gdp e * 0.999 \<rparr>);
             w3 = map_population w2 c1 (\<lambda>p. p\<lparr> happiness := happiness p - 0.1 \<rparr>);
             w4 = map_population w3 c2 (\<lambda>p. p\<lparr> happiness := happiness p - 0.1 \<rparr>);
             w5 = map_government w4 c1 (\<lambda>g. g\<lparr> stability := stability g - 0.1 \<rparr>);
             w6 = map_government w5 c2 (\<lambda>g. g\<lparr> stability := stability g - 0.1 \<rparr>)
         in if draw < 0.01 then
              (let winner = (if country1_strength > country2_strength then c1 else c2);
                   loser = (if winner = c1 then c2 else c1);
                   w7 = set_relation w6 k (r\<lparr> at_war := False \<rparr>);
                   w8 = map_economy w7 winner (\<lambda>e. e\<lparr> gdp := gdp e * 1.05 \<rparr>);
                   w9 = map_economy w8 loser (\<lambda>e. e\<lparr> gdp := gdp e * 0.95 \<rparr>);
                   w10 = map_economy w9 winner
                           (\<lambda>e. e\<lparr> military_spending := max 0.05 (military_spending e - 0.03) \<rparr>)
               in map_economy w10 loser
                    (\<lambda>e. e\<lparr> military_spending := max 0.05 (military_spending e - 0.03) \<rparr>))
            else w6)
      else w)"

text \<open>\<^verbatim>\<open>resolve_wars\<close>: the loop over the relations in dictionary order; \<open>draws i\<close>
  is the random value for the relation at position \<open>i\<close>.\<close>

fun resolve_wars_from :: "world \<Rightarrow> (string \<times> string) list \<Rightarrow> nat \<Rightarrow> (nat \<Rightarrow> real) \<Rightarrow> world" where
  "resolve_wars_from w [] i draws = w"
| "resolve_wars_from w (k # ks) i draws =
     (case map_of (relations w) k of
        None \<Rightarrow> resolve_wars_from w ks (Suc i) draws
      | Some r \<Rightarrow> resolve_wars_from (resolve_war w k r (draws i)) ks (Suc i) draws)"

definition resolve_wars :: "world \<Rightarrow> (nat \<Rightarrow> real) \<Rightarrow> world" where
  "resolve_wars w draws = resolve_wars_from w (map fst (relations w)) 0 draws"

section \<open>Runs, predicates of the statements, example states\<close>

subsection \<open>Double-precision rounding\<close>

text \<open>Python floats are IEEE 754 binary64 numbers, and every arithmetic operation
  returns the double nearest to the exact result, ties going to the even
  significand. \<open>binary64 v\<close> is that double for a real \<open>v\<close> of magnitude below
  \<open>2 ^ 1024\<close> (overflow to infinity and NaN are not modelled):
  \<open>binary_exponent\<close> finds the exponent \<open>e\<close> with \<open>2 ^ e \<le> a < 2 ^ (e + 1)\<close> by
  halving or doubling at most 1100 times, the spacing of the doubles around \<open>a\<close>
  is \<open>2 ^ (e - 52)\<close> (with \<open>e\<close> at least -1022, the subnormal range), and the
  quotient is rounded to the nearest integer, ties to even.\<close>

fun binary_exponent :: "nat \<Rightarrow> real \<Rightarrow> int" where
  "binary_exponent 0 a = 0"
| "binary_exponent (Suc n) a =
     (if 2 \<le> a then binary_exponent n (a / 2) + 1
      else if a < 1 then binary_exponent n (a * 2) - 1
      else 0)"

definition pow2 :: "int \<Rightarrow> real" where
  "pow2 k = (if 0 \<le> k then 2 ^ nat k else 1 / 2 ^ nat (- k))"

definition round_half_even :: "real \<Rightarrow> int" where
  "round_half_even v =
     (let f = \<lfloor>v\<rfloor>; d = v - of_int f
      in if d < 1 / 2 then f
         else if 1 / 2 < d then f + 1
         else if even f then f else f + 1)"

definition binary64 :: "real \<Rightarrow> real" where
  "binary64 v =
     (if v = 0 then 0
      else
        (let a = \<bar>v\<bar>;
             e = max (binary_exponent 1100 a) (- 1022);
             q = pow2 (e - 52)
         in sgn v * (of_int (round_half_even (a / q)) * q)))"

subsection \<open>Sequences of operations on a government\<close>

text \<open>Every writer of a government's fields in the repository: the methods of
  class Government and the attrition of \<^verbatim>\<open>resolve_wars\<close>, which subtracts 0.1
  from the stability. A run applies a list of them and stops at the first
  exception. The arguments and random values of each step are arbitrary.\<close>

datatype gov_op =
    Tick real real real "nat \<Rightarrow> real"
  | UpdatePopularity real real
  | HoldElection "nat \<Rightarrow> real"
  | ChangeType string real
  | PassLaw string bool real
  | PoliticalEvent string real real real
  | WarAttrition

fun gov_step :: "government \<Rightarrow> gov_op \<Rightarrow> error + government" where
  "gov_step g (Tick approval eh draw noise) = update_government g approval eh draw noise"
| "gov_step g (UpdatePopularity approval eh) = Inr (update_party_popularity g approval eh)"
| "gov_step g (HoldElection noise) = hold_election g noise"
| "gov_step g (ChangeType new_type draw) = Inr (change_government_type g new_type draw)"
| "gov_step g (PassLaw law_name v draw) = Inr (pass_law g law_name v draw)"
| "gov_step g (PoliticalEvent ev d1 d2 d3) = Inr (trigger_political_event g ev d1 d2 d3)"
| "gov_step g WarAttrition = Inr (g\<lparr> stability := stability g - 0.1 \<rparr>)"

fun gov_run :: "government \<Rightarrow> gov_op list \<Rightarrow> error + government" where
  "gov_run g [] = Inr g"
| "gov_run g (op # ops) =
     (case gov_step g op of Inl e \<Rightarrow> Inl e | Inr g' \<Rightarrow> gov_run g' ops)"

subsection \<open>Predicates of the statements\<close>

definition share_sum :: "economy \<Rightarrow> real" where
  "share_sum e = healthcare_spending e + education_spending e + military_spending e +
                 infrastructure_spending e + welfare_spending e"

text \<open>The sum \<^verbatim>\<open>total\<close> that \<^verbatim>\<open>allocate_budget\<close> computes, with the rounding
  of each addition, and the same sum over the shares of an economy.\<close>

definition requested_total_rounded ::
  "(real \<Rightarrow> real) \<Rightarrow> economy \<Rightarrow> real option \<Rightarrow> real option \<Rightarrow> real option \<Rightarrow> real option
   \<Rightarrow> real option \<Rightarrow> real" where
  "requested_total_rounded rnd e h ed m i w =
     rnd (rnd (rnd (rnd (set_share h (healthcare_spending e) + set_share ed (education_spending e)) +
       set_share m (military_spending e)) + set_share i (infrastructure_spending e)) +
       set_share w (welfare_spending e))"

definition share_sum_rounded :: "(real \<Rightarrow> real) \<Rightarrow> economy \<Rightarrow> real" where
  "share_sum_rounded rnd e =
     rnd (rnd (rnd (rnd (healthcare_spending e + education_spending e) + military_spending e) +
       infrastructure_spending e) + welfare_spending e)"

text \<open>The party list that \<^verbatim>\<open>update_party_popularity\<close> stores, as a function of
  the roster and the ruling party's index alone (the same expressions as in
  \<open>update_party_popularity\<close>; the two are proved equal below).\<close>

definition shifted_popularities :: "party list \<Rightarrow> nat \<Rightarrow> real \<Rightarrow> real \<Rightarrow> party list" where
  "shifted_popularities ps r approval economic_health =
     (let ruling_performance = (approval + economic_health) / 2;
          performance_change = (ruling_performance - 50) * 0.002;
          ps1 = ps[r := (ps ! r)\<lparr> popularity := popularity (ps ! r) + performance_change \<rparr>];
          ps2 = (if performance_change < 0 then
                   map (\<lambda>(i, p). if i \<noteq> r
                          then p\<lparr> popularity := popularity p +
                                  \<bar>performance_change\<bar> / real (length ps1) \<rparr>
                          else p) (enumerate 0 ps1)
                 else ps1);
          total_popularity = sum_list (map popularity ps2)
      in if total_popularity > 0 then
           map (\<lambda>p. p\<lparr> popularity := popularity p / total_popularity \<rparr>) ps2
         else ps2)"

definition roster_names :: "string list" where
  "roster_names = [''Progressive Party'', ''Conservative Party'',
                   ''Centrist Alliance'', ''Nationalist Party'']"

definition ruling_in_roster :: "government \<Rightarrow> bool" where
  "ruling_in_roster g \<longleftrightarrow>
     map party_name (parties g) = roster_names \<and> ruling_party g < length (parties g)"

definition ruling_most_popular :: "government \<Rightarrow> bool" where
  "ruling_most_popular g \<longleftrightarrow>
     list_all (\<lambda>p. popularity p \<le> popularity (parties g ! ruling_party g)) (parties g)"

definition countdown_at_frequency :: "government \<Rightarrow> bool" where
  "countdown_at_frequency g \<longleftrightarrow> next_election g = election_frequency (gtype g)"

subsection \<open>Example states\<close>

text \<open>A freshly constructed democracy; the draws of each party (corruption level,
  tax, welfare and military preference) are values of the ranges of its
  ideology.\<close>

definition left_draws :: "real \<times> real \<times> real \<times> real" where
  "left_draws = (0.2, 0.35, 0.25, 0.1)"

definition right_draws :: "real \<times> real \<times> real \<times> real" where
  "right_draws = (0.2, 0.2, 0.1, 0.2)"

definition centre_draws :: "real \<times> real \<times> real \<times> real" where
  "centre_draws = (0.2, 0.2, 0.15, 0.15)"

definition example_government :: government where
  "example_government =
     projr (Government_init ''democracy'' left_draws right_draws centre_draws right_draws)"

text \<open>\<^verbatim>\<open>Country(name, 100, 100, population=1000000, gdp=g)\<close> with one trait.\<close>

definition example_country :: "string \<Rightarrow> real \<Rightarrow> country" where
  "example_country n g =
     \<lparr> name = n, x = 100, y = 100, population = Population_init 1000000,
       economy = Economy_init g 1000000, government = example_government,
       traits = [''industrial''], military_strength = 1, is_player = False \<rparr>"

definition example_relation :: relation where
  "example_relation =
     \<lparr> country1 = ''Astraland'', country2 = ''Bellaia'', relation_value = 0,
       trade_deal = False, alliance = False, at_war = False, sanctions = False,
       trade_volume = 0 \<rparr>"

text \<open>Two countries, Astraland with a GDP of 1,000,000 and Bellaia with a GDP of
  400,000, and the relation between them.\<close>

definition example_world :: world where
  "example_world =
     \<lparr> countries = (\<lambda>n. if n = ''Bellaia'' then example_country n 400000
                         else example_country n 1000000),
       relations = [((''Astraland'', ''Bellaia''), example_relation)],
       recent_actions = [] \<rparr>"

definition allied_world :: world where
  "allied_world = set_relation example_world (''Astraland'', ''Bellaia'')
                    (example_relation\<lparr> relation_value := 70, alliance := True \<rparr>)"

definition strained_alliance :: relation where
  "strained_alliance = example_relation\<lparr> relation_value := - 85, alliance := True \<rparr>"

text \<open>The example government after one tick with approval 20 and economic health
  20, after an election held in that state, and after a change to a republic
  followed by a protest.\<close>

definition unpopular_government :: government where
  "unpopular_government = update_government_metrics example_government 20 20 0"

definition elected_government :: government where
  "elected_government = projr (hold_election unpopular_government (\<lambda>i. 0))"

definition reformed_government :: government where
  "reformed_government =
     trigger_political_event
       (change_government_type unpopular_government ''republic'' 15) ''protest'' 3 0 0"

text \<open>The example government after 30 ticks with approval 20, and after 445 ticks
  with approval 50 and a corruption draw of 0.9.\<close>

definition collapsed_government :: government where
  "collapsed_government = ((\<lambda>g. update_government_metrics g 20 0 0) ^^ 30) example_government"

definition corrupt_government :: government where
  "corrupt_government = ((\<lambda>g. update_government_metrics g 50 50 0.9) ^^ 445) example_government"

text \<open>A population after one update with no healthcare and no education spending,
  an economic health of 0 and a stability of 0.\<close>

definition unhappy_population :: population where
  "unhappy_population = update_population (Population_init 1000000) 0 0 0.15 0 0"

definition collapsed_world :: world where
  "collapsed_world =
     \<lparr> countries = (\<lambda>n. (example_country n 1000000)
                        \<lparr> population := unhappy_population, government := collapsed_government \<rparr>),
       relations = [((''Astraland'', ''Bellaia''), example_relation\<lparr> relation_value := - 10 \<rparr>)],
       recent_actions = [] \<rparr>"

definition at_war_world :: world where
  "at_war_world = snd (snd (perform_diplomatic_action collapsed_world
                     ''Astraland'' ''Bellaia'' WAR_DECLARATION True 0))"

text \<open>The example world after Astraland has set its healthcare share to 0.34.\<close>

definition budget_world :: world where
  "budget_world = map_economy example_world ''Astraland''
                    (\<lambda>e. allocate_budget e (Some 0.34) None None None None)"

text \<open>A constructed economy as the source holds it: each share is the double
  nearest to the literal of \<^verbatim>\<open>Economy.__init__\<close>. The request is
  \<^verbatim>\<open>allocate_budget(welfare=0.36)\<close>.\<close>

definition double_economy :: economy where
  "double_economy =
     (Economy_init 1000000 1000000)
       \<lparr> healthcare_spending := binary64 0.15,
         education_spending := binary64 0.20,
         military_spending := binary64 0.10,
         infrastructure_spending := binary64 0.20,
         welfare_spending := binary64 0.15,
         other_spending := binary64 0.20 \<rparr>"

definition welfare_request :: real where
  "welfare_request = binary64 0.36"

definition rescaled_economy :: economy where
  "rescaled_economy =
     allocate_budget_rounded binary64 double_economy None None None None (Some welfare_request)"

section \<open>Double-precision rounding\<close>

lemma binary_exponent_numeral:
  "binary_exponent (numeral k) a =
     (if 2 \<le> a then binary_exponent (pred_numeral k) (a / 2) + 1
      else if a < 1 then binary_exponent (pred_numeral k) (a * 2) - 1
      else 0)"
  by (simp add: numeral_eq_Suc)

lemma binary64_eval:
  assumes "0 < v" and "binary_exponent 1100 v = e" and "- 1022 \<le> e"
    and "round_half_even (v / pow2 (e - 52)) = n" and "of_int n * pow2 (e - 52) = d"
  shows "binary64 v = d"
proof -
  have m: "max (binary_exponent 1100 v) (- 1022) = e"
    using assms(2,3) by simp
  have "binary64 v = of_int (round_half_even (v / pow2 (e - 52))) * pow2 (e - 52)"
    using assms(1) by (simp add: binary64_def Let_def m)
  with assms(4,5) show ?thesis by simp
qed

lemma pow2_pos: "0 < pow2 k"
  by (simp add: pow2_def)

lemma round_half_even_nonneg: "0 \<le> v \<Longrightarrow> 0 \<le> round_half_even v"
  by (simp add: round_half_even_def Let_def)

lemma binary64_nonpos:
  assumes "v \<le> 0"
  shows "binary64 v \<le> 0"
proof (cases "v = 0")
  case True
  then show ?thesis by (simp add: binary64_def)
next
  case False
  with assms have neg: "v < 0" by simp
  define q where "q = pow2 (max (binary_exponent 1100 \<bar>v\<bar>) (- 1022) - 52)"
  have "0 < q" unfolding q_def by (rule pow2_pos)
  then have "0 \<le> \<bar>v\<bar> / q" by simp
  then have "0 \<le> round_half_even (\<bar>v\<bar> / q)" by (rule round_half_even_nonneg)
  then have "0 \<le> of_int (round_half_even (\<bar>v\<bar> / q)) * q"
    using \<open>0 < q\<close> by simp
  moreover have "binary64 v = - (of_int (round_half_even (\<bar>v\<bar> / q)) * q)"
    using neg by (simp add: binary64_def Let_def q_def)
  ultimately show ?thesis by simp
qed

lemma binary64_minus: "binary64 (- v) = - binary64 v"
  by (simp add: binary64_def Let_def sgn_minus)

text \<open>Known values: the doubles of 0.1, 0.2 and 0.3, the sum \<^verbatim>\<open>0.1 + 0.2\<close>, which
  is the double above that of 0.3, and two ties.\<close>

lemma double_10_100: "binary64 0.10 = 3602879701896397 / 2 ^ 55"
  by (rule binary64_eval [where e = "- 4" and n = 7205759403792794])
     (simp_all add: binary_exponent_numeral pow2_def round_half_even_def Let_def)

lemma double_20_100: "binary64 0.20 = 3602879701896397 / 2 ^ 54"
  by (rule binary64_eval [where e = "- 3" and n = 7205759403792794])
     (simp_all add: binary_exponent_numeral pow2_def round_half_even_def Let_def)

lemma double_30_100: "binary64 0.30 = 5404319552844595 / 2 ^ 54"
  by (rule binary64_eval [where e = "- 2" and n = 5404319552844595])
     (simp_all add: binary_exponent_numeral pow2_def round_half_even_def Let_def)

lemma double_tie_down: "binary64 (1 + 1 / 2 ^ 53) = 1"
  by (rule binary64_eval [where e = "0" and n = 4503599627370496])
     (simp_all add: binary_exponent_numeral pow2_def round_half_even_def Let_def)

lemma double_tie_up: "binary64 (1 + 3 / 2 ^ 53) = 2251799813685249 / 2 ^ 51"
  by (rule binary64_eval [where e = "0" and n = 4503599627370498])
     (simp_all add: binary_exponent_numeral pow2_def round_half_even_def Let_def)

lemma double_sum_01_02: "binary64 (3602879701896397 / 2 ^ 55 + 3602879701896397 / 2 ^ 54) = 1351079888211149 / 2 ^ 52"
  by (rule binary64_eval [where e = "- 2" and n = 5404319552844596])
     (simp_all add: binary_exponent_numeral pow2_def round_half_even_def Let_def)

text \<open>The values of the budget example, operation by operation.\<close>

lemma double_15_100: "binary64 0.15 = 5404319552844595 / 2 ^ 55"
  by (rule binary64_eval [where e = "- 3" and n = 5404319552844595])
     (simp_all add: binary_exponent_numeral pow2_def round_half_even_def Let_def)

lemma double_36_100: "binary64 0.36 = 3242591731706757 / 2 ^ 53"
  by (rule binary64_eval [where e = "- 2" and n = 6485183463413514])
     (simp_all add: binary_exponent_numeral pow2_def round_half_even_def Let_def)

lemma total_step1: "binary64 (5404319552844595 / 2 ^ 55 + 3602879701896397 / 2 ^ 54) = 3152519739159347 / 2 ^ 53"
  by (rule binary64_eval [where e = "- 2" and n = 6305039478318694])
     (simp_all add: binary_exponent_numeral pow2_def round_half_even_def Let_def)

lemma total_step2: "binary64 (3152519739159347 / 2 ^ 53 + 3602879701896397 / 2 ^ 55) = 2026619832316723 / 2 ^ 52"
  by (rule binary64_eval [where e = "- 2" and n = 8106479329266892])
     (simp_all add: binary_exponent_numeral pow2_def round_half_even_def Let_def)

lemma total_step3: "binary64 (2026619832316723 / 2 ^ 52 + 3602879701896397 / 2 ^ 54) = 1463669878895411 / 2 ^ 51"
  by (rule binary64_eval [where e = "- 1" and n = 5854679515581644])
     (simp_all add: binary_exponent_numeral pow2_def round_half_even_def Let_def)

lemma total_step4: "binary64 (1463669878895411 / 2 ^ 51 + 3242591731706757 / 2 ^ 53) = 568579452955525 / 2 ^ 49"
  by (rule binary64_eval [where e = "0" and n = 4548635623644200])
     (simp_all add: binary_exponent_numeral pow2_def round_half_even_def Let_def)

lemma scale_value: "binary64 (1 / (568579452955525 / 2 ^ 49)) = 4459009532049997 / 2 ^ 52"
  by (rule binary64_eval [where e = "- 1" and n = 8918019064099994])
     (simp_all add: binary_exponent_numeral pow2_def round_half_even_def Let_def)

lemma scaled_healthcare: "binary64 (5404319552844595 / 2 ^ 55 * (4459009532049997 / 2 ^ 52)) = 1337702859614999 / 2 ^ 53"
  by (rule binary64_eval [where e = "- 3" and n = 5350811438459996])
     (simp_all add: binary_exponent_numeral pow2_def round_half_even_def Let_def)

lemma scaled_education: "binary64 (3602879701896397 / 2 ^ 54 * (4459009532049997 / 2 ^ 52)) = 1783603812819999 / 2 ^ 53"
  by (rule binary64_eval [where e = "- 3" and n = 7134415251279996])
     (simp_all add: binary_exponent_numeral pow2_def round_half_even_def Let_def)

lemma scaled_military: "binary64 (3602879701896397 / 2 ^ 55 * (4459009532049997 / 2 ^ 52)) = 1783603812819999 / 2 ^ 54"
  by (rule binary64_eval [where e = "- 4" and n = 7134415251279996])
     (simp_all add: binary_exponent_numeral pow2_def round_half_even_def Let_def)

lemma scaled_welfare: "binary64 (3242591731706757 / 2 ^ 53 * (4459009532049997 / 2 ^ 52)) = 6420973726151995 / 2 ^ 54"
  by (rule binary64_eval [where e = "- 2" and n = 6420973726151995])
     (simp_all add: binary_exponent_numeral pow2_def round_half_even_def Let_def)

lemma sum_step1: "binary64 (1337702859614999 / 2 ^ 53 + 1783603812819999 / 2 ^ 53) = 1560653336217499 / 2 ^ 52"
  by (rule binary64_eval [where e = "- 2" and n = 6242613344869996])
     (simp_all add: binary_exponent_numeral pow2_def round_half_even_def Let_def)

lemma sum_step2: "binary64 (1560653336217499 / 2 ^ 52 + 1783603812819999 / 2 ^ 54) = 8026217157689995 / 2 ^ 54"
  by (rule binary64_eval [where e = "- 2" and n = 8026217157689995])
     (simp_all add: binary_exponent_numeral pow2_def round_half_even_def Let_def)

lemma sum_step3: "binary64 (8026217157689995 / 2 ^ 54 + 1783603812819999 / 2 ^ 53) = 1449178097916249 / 2 ^ 51"
  by (rule binary64_eval [where e = "- 1" and n = 5796712391664996])
     (simp_all add: binary_exponent_numeral pow2_def round_half_even_def Let_def)

lemma sum_step4: "binary64 (1449178097916249 / 2 ^ 51 + 6420973726151995 / 2 ^ 54) = 4503599627370497 / 2 ^ 52"
  by (rule binary64_eval [where e = "0" and n = 4503599627370497])
     (simp_all add: binary_exponent_numeral pow2_def round_half_even_def Let_def)

text \<open>The values of the relation examples.\<close>

lemma double_88: "binary64 88 = 88"
  by (rule binary64_eval [where e = "6" and n = 6192449487634432])
     (simp_all add: binary_exponent_numeral pow2_def round_half_even_def Let_def)

lemma double_75: "binary64 75 = 75"
  by (rule binary64_eval [where e = "6" and n = 5277655813324800])
     (simp_all add: binary_exponent_numeral pow2_def round_half_even_def Let_def)

lemma double_boundary: "binary64 (90071992547409921 / 2 ^ 50) = 80"
  by (rule binary64_eval [where e = "6" and n = 5629499534213120])
     (simp_all add: binary_exponent_numeral pow2_def round_half_even_def Let_def)

lemma minus_85_minus_3: "binary64 (- 85 + - 3) = - 88"
proof -
  have "(- 85 + - 3 :: real) = - 88" by simp
  then show ?thesis by (simp only: binary64_minus double_88)
qed

lemma minus_85_plus_10: "binary64 (- 85 + 10) = - 75"
proof -
  have "(- 85 + 10 :: real) = - 75" by simp
  then show ?thesis by (simp only: binary64_minus double_75)
qed

lemma minus_85_plus_boundary: "binary64 (- 85 + 5629499534213119 / 2 ^ 50) = - 80"
proof -
  have "(- 85 + 5629499534213119 / 2 ^ 50 :: real) = - (90071992547409921 / 2 ^ 50)" by simp
  then show ?thesis by (simp only: binary64_minus double_boundary)
qed

section \<open>Economy\<close>

subsection \<open>The budget update\<close>

text \<open>C9. \<^verbatim>\<open>update_budget\<close> stores the revenue \<open>gdp \<times> tax_rate\<close> in
  \<open>government_budget\<close>; as the spending it compares with is the revenue itself,
  neither debt branch is taken, so the debt and every field other than
  \<open>government_budget\<close> are left as they were.\<close>

theorem update_budget_frame:
  "update_budget e = e\<lparr> government_budget := gdp e * tax_rate e \<rparr>"
  by (simp add: update_budget_def calculate_tax_revenue_def Let_def)

subsection \<open>The budget allocation\<close>

lemma allocate_budget_rounded_exact:
  "allocate_budget_rounded (\<lambda>v. v) e h ed m i w = allocate_budget e h ed m i w"
  by (simp only: allocate_budget_rounded_def allocate_budget_def)

lemma allocate_budget_rounded_fields:
  "healthcare_spending (allocate_budget_rounded rnd e h ed m i w) =
     (if requested_total_rounded rnd e h ed m i w > 1
      then rnd (set_share h (healthcare_spending e) * rnd (1 / requested_total_rounded rnd e h ed m i w))
      else set_share h (healthcare_spending e))"
  "education_spending (allocate_budget_rounded rnd e h ed m i w) =
     (if requested_total_rounded rnd e h ed m i w > 1
      then rnd (set_share ed (education_spending e) * rnd (1 / requested_total_rounded rnd e h ed m i w))
      else set_share ed (education_spending e))"
  "military_spending (allocate_budget_rounded rnd e h ed m i w) =
     (if requested_total_rounded rnd e h ed m i w > 1
      then rnd (set_share m (military_spending e) * rnd (1 / requested_total_rounded rnd e h ed m i w))
      else set_share m (military_spending e))"
  "infrastructure_spending (allocate_budget_rounded rnd e h ed m i w) =
     (if requested_total_rounded rnd e h ed m i w > 1
      then rnd (set_share i (infrastructure_spending e) * rnd (1 / requested_total_rounded rnd e h ed m i w))
      else set_share i (infrastructure_spending e))"
  "welfare_spending (allocate_budget_rounded rnd e h ed m i w) =
     (if requested_total_rounded rnd e h ed m i w > 1
      then rnd (set_share w (welfare_spending e) * rnd (1 / requested_total_rounded rnd e h ed m i w))
      else set_share w (welfare_spending e))"
  "other_spending (allocate_budget_rounded rnd e h ed m i w)
     = max 0 (rnd (1 - requested_total_rounded rnd e h ed m i w))"
  by (simp_all add: allocate_budget_rounded_def requested_total_rounded_def Let_def)

lemma double_economy_shares:
  "healthcare_spending double_economy = 5404319552844595 / 2 ^ 55"
  "education_spending double_economy = 3602879701896397 / 2 ^ 54"
  "military_spending double_economy = 3602879701896397 / 2 ^ 55"
  "infrastructure_spending double_economy = 3602879701896397 / 2 ^ 54"
  "welfare_spending double_economy = 5404319552844595 / 2 ^ 55"
  unfolding double_economy_def double_15_100 double_20_100 double_10_100
  by simp_all

lemma set_share_None: "set_share None c = c"
  by (simp add: set_share_def)

lemma set_share_welfare_request:
  "set_share (Some welfare_request) c = 3242591731706757 / 2 ^ 53"
  unfolding welfare_request_def double_36_100 by (simp add: set_share_def)

lemma rescaled_total:
  "requested_total_rounded binary64 double_economy None None None None (Some welfare_request)
     = 568579452955525 / 2 ^ 49"
  unfolding requested_total_rounded_def set_share_None set_share_welfare_request
    double_economy_shares total_step1 total_step2 total_step3 total_step4
  by (rule refl)

lemma rescaled_economy_shares:
  "healthcare_spending rescaled_economy = 1337702859614999 / 2 ^ 53"
  "education_spending rescaled_economy = 1783603812819999 / 2 ^ 53"
  "military_spending rescaled_economy = 1783603812819999 / 2 ^ 54"
  "infrastructure_spending rescaled_economy = 1783603812819999 / 2 ^ 53"
  "welfare_spending rescaled_economy = 6420973726151995 / 2 ^ 54"
  unfolding rescaled_economy_def allocate_budget_rounded_fields rescaled_total
    set_share_None set_share_welfare_request double_economy_shares
    scale_value scaled_healthcare scaled_education scaled_military scaled_welfare
  by simp_all

lemma rescaled_economy_other: "other_spending rescaled_economy = 0"
proof -
  have "binary64 (1 - 568579452955525 / 2 ^ 49) \<le> 0"
    by (rule binary64_nonpos) simp
  then show ?thesis
    unfolding rescaled_economy_def allocate_budget_rounded_fields rescaled_total
    by simp
qed

lemma rescaled_economy_sum_rounded:
  "share_sum_rounded binary64 rescaled_economy = 4503599627370497 / 2 ^ 52"
  unfolding share_sum_rounded_def rescaled_economy_shares
    sum_step1 sum_step2 sum_step3 sum_step4
  by (rule refl)

text \<open>C5. \<^verbatim>\<open>allocate_budget(welfare=0.36)\<close> on a constructed economy, computed
  in doubles as the source computes it: the sum of the five shares after the
  assignments is 1.0099999999999998, above 1, so every share is multiplied by
  \<^verbatim>\<open>scale = 1.0 / total\<close>; the five products, each rounded to a double, add up
  to \<open>1 + 2\<^sup>-\<^sup>5\<^sup>2\<close> (1.0000000000000002), whether added exactly or in doubles,
  where the specification has the rescaled shares sum to exactly 1.0 and at most
  1.0; \<open>other_spending\<close> is 0.\<close>

theorem allocate_budget_rounded_sum_exceeds_one:
  "welfare_request = binary64 0.36
   \<and> healthcare_spending double_economy = binary64 0.15
   \<and> education_spending double_economy = binary64 0.20
   \<and> military_spending double_economy = binary64 0.10
   \<and> infrastructure_spending double_economy = binary64 0.20
   \<and> welfare_spending double_economy = binary64 0.15
   \<and> rescaled_economy
        = allocate_budget_rounded binary64 double_economy None None None None (Some welfare_request)
   \<and> requested_total_rounded binary64 double_economy None None None None (Some welfare_request)
        = 568579452955525 / 2 ^ 49
   \<and> healthcare_spending rescaled_economy = 1337702859614999 / 2 ^ 53
   \<and> education_spending rescaled_economy = 1783603812819999 / 2 ^ 53
   \<and> military_spending rescaled_economy = 1783603812819999 / 2 ^ 54
   \<and> infrastructure_spending rescaled_economy = 1783603812819999 / 2 ^ 53
   \<and> welfare_spending rescaled_economy = 6420973726151995 / 2 ^ 54
   \<and> other_spending rescaled_economy = 0
   \<and> share_sum rescaled_economy = 1 + 1 / 2 ^ 52
   \<and> share_sum_rounded binary64 rescaled_economy = 1 + 1 / 2 ^ 52
   \<and> 1 < share_sum rescaled_economy"
proof -
  have s: "share_sum rescaled_economy = 1 + 1 / 2 ^ 52"
    unfolding share_sum_def rescaled_economy_shares by simp
  have sr: "share_sum_rounded binary64 rescaled_economy = 1 + 1 / 2 ^ 52"
    unfolding rescaled_economy_sum_rounded by simp
  have d: "healthcare_spending double_economy = binary64 0.15"
    "education_spending double_economy = binary64 0.20"
    "military_spending double_economy = binary64 0.10"
    "infrastructure_spending double_economy = binary64 0.20"
    "welfare_spending double_economy = binary64 0.15"
    by (simp_all add: double_economy_def)
  have gt: "1 < share_sum rescaled_economy" unfolding s by simp
  show ?thesis
    using s sr d gt rescaled_total rescaled_economy_shares rescaled_economy_other
    by (simp only: welfare_request_def rescaled_economy_def simp_thms)
qed

section \<open>Population\<close>

lemma update_population_health:
  "health (update_population p hs es ws eh st) = min 100 (health p + (hs * 50 - 70) * 0.01)"
  by (simp add: update_population_def Let_def)

lemma update_population_education:
  "education (update_population p hs es ws eh st) = min 100 (education p + (es * 50 - 60) * 0.01)"
  by (simp add: update_population_def Let_def)

lemma update_population_happiness:
  "happiness (update_population p hs es ws eh st) =
     (min 100 (hs * 100) + min 100 (es * 100) + eh + min 100 (st * 100)) / 4"
  by (simp add: update_population_def Let_def)

text \<open>With a spending share of at most 1 the health and the education of a
  population fall at every update, whatever they were.\<close>

lemma update_population_health_declines:
  assumes "hs \<le> 1"
  shows "health (update_population p hs es ws eh st) < health p"
proof -
  have "hs * 50 - 70 < 0" using assms by simp
  then have "(hs * 50 - 70) * 0.01 < 0" by (simp add: mult_less_0_iff)
  then have "health p + (hs * 50 - 70) * 0.01 < health p" by simp
  then show ?thesis
    unfolding update_population_health by (rule min.strict_coboundedI2)
qed

lemma update_population_education_declines:
  assumes "es \<le> 1"
  shows "education (update_population p hs es ws eh st) < education p"
proof -
  have "es * 50 - 60 < 0" using assms by simp
  then have "(es * 50 - 60) * 0.01 < 0" by (simp add: mult_less_0_iff)
  then have "education p + (es * 50 - 60) * 0.01 < education p" by simp
  then show ?thesis
    unfolding update_population_education by (rule min.strict_coboundedI2)
qed

text \<open>C3. \<^verbatim>\<open>update_population\<close> on a freshly constructed population (health 70,
  education 60) with the whole budget spent on healthcare and on education
  (both shares 1, the highest spending level): the health falls to 69.8 and the
  education to 59.9, where the specification has sufficiently high spending
  maintain or raise them.\<close>

theorem update_population_full_spending_declines:
  "health (Population_init 1000000) = 70
   \<and> health (update_population (Population_init 1000000) 1 1 1 100 1) = 69.8
   \<and> education (Population_init 1000000) = 60
   \<and> education (update_population (Population_init 1000000) 1 1 1 100 1) = 59.9"
  by (simp add: update_population_health update_population_education Population_init_def)

section \<open>Relations and diplomatic actions\<close>

subsection \<open>Updating a relation\<close>

lemma update_relation_value [simp]:
  "relation_value (update_relation r d) = max (- 100) (min 100 (relation_value r + d))"
  by (simp add: update_relation_def Let_def)

lemma update_relation_at_war [simp]: "at_war (update_relation r d) = at_war r"
  by (simp add: update_relation_def Let_def)

lemma update_relation_alliance:
  "alliance (update_relation r d) \<longleftrightarrow>
     alliance r \<and> \<not> max (- 100) (min 100 (relation_value r + d)) < - 80"
  by (auto simp add: update_relation_def Let_def)

lemma update_relation_trade_deal:
  "trade_deal (update_relation r d) \<longleftrightarrow>
     trade_deal r \<and> \<not> max (- 100) (min 100 (relation_value r + d)) < - 90"
  by (auto simp add: update_relation_def Let_def)

lemma update_relation_rounded_exact:
  "update_relation_rounded (\<lambda>v. v) r d = update_relation r d"
  by (simp only: update_relation_rounded_def update_relation_def)

lemma update_relation_rounded_value:
  "relation_value (update_relation_rounded rnd r d)
     = max (- 100) (min 100 (rnd (relation_value r + d)))"
  by (simp add: update_relation_rounded_def Let_def)

lemma update_relation_rounded_alliance:
  "alliance (update_relation_rounded rnd r d) \<longleftrightarrow>
     alliance r \<and> \<not> relation_value (update_relation_rounded rnd r d) < - 80"
  by (auto simp add: update_relation_rounded_def Let_def)

text \<open>C4, as amended. For a relation with \<open>relation_value = -85\<close> and
  \<open>alliance = true\<close>, the next call of \<^verbatim>\<open>update_relation\<close> stores the sum of -85
  and the delta, clamped to [-100,100], and clears the alliance exactly when
  that stored value is below -80; when it is -80 or more the alliance stays.
  The statement is for every rounding of the sum, so it holds of the doubles of
  the source (\<open>rnd = binary64\<close>) and of exact arithmetic (\<open>rnd\<close> the identity,
  which is \<open>update_relation\<close>).\<close>

theorem update_relation_alliance_at_minus_85:
  "relation_value r = - 85 \<Longrightarrow> alliance r \<Longrightarrow>
     relation_value (update_relation_rounded rnd r d) = max (- 100) (min 100 (rnd (- 85 + d)))
   \<and> (alliance (update_relation_rounded rnd r d)
        \<longleftrightarrow> \<not> relation_value (update_relation_rounded rnd r d) < - 80)"
  by (simp add: update_relation_rounded_value update_relation_rounded_alliance)

text \<open>The theorem at the alliance between Astraland and Bellaia: the delta -3
  gives -88 and clears the alliance, in doubles and in exact arithmetic; the
  delta 10 gives -75 and keeps it.\<close>

theorem update_relation_alliance_at_minus_85_witness:
  "relation_value strained_alliance = - 85 \<and> alliance strained_alliance
   \<and> relation_value (update_relation_rounded binary64 strained_alliance (- 3)) = - 88
   \<and> \<not> alliance (update_relation_rounded binary64 strained_alliance (- 3))
   \<and> relation_value (update_relation_rounded binary64 strained_alliance 10) = - 75
   \<and> alliance (update_relation_rounded binary64 strained_alliance 10)
   \<and> relation_value (update_relation strained_alliance (- 3)) = - 88
   \<and> \<not> alliance (update_relation strained_alliance (- 3))"
proof -
  have v: "relation_value strained_alliance = - 85"
    by (simp add: strained_alliance_def)
  have a: "alliance strained_alliance"
    by (simp add: strained_alliance_def)
  have e: "update_relation strained_alliance (- 3)
             = update_relation_rounded (\<lambda>v. v) strained_alliance (- 3)"
    by (simp only: update_relation_rounded_exact)
  show ?thesis
    using v a
      update_relation_alliance_at_minus_85 [OF v a, of binary64 "- 3"]
      update_relation_alliance_at_minus_85 [OF v a, of binary64 10]
      update_relation_alliance_at_minus_85 [OF v a, of "\<lambda>v. v" "- 3"]
    unfolding e minus_85_minus_3 minus_85_plus_10
    by simp
qed

text \<open>Why the condition is on the stored value: the delta 4.999999999999999
  (the double below 5) is less than 5, yet in doubles the sum is rounded to
  -80, which is not below -80, and the alliance is kept.\<close>

lemma update_relation_rounded_boundary:
  "(5629499534213119 / 2 ^ 50 :: real) < 5
   \<and> relation_value (update_relation_rounded binary64 strained_alliance
         (5629499534213119 / 2 ^ 50)) = - 80
   \<and> alliance (update_relation_rounded binary64 strained_alliance (5629499534213119 / 2 ^ 50))"
proof -
  have v: "relation_value strained_alliance = - 85"
    by (simp add: strained_alliance_def)
  have a: "alliance strained_alliance"
    by (simp add: strained_alliance_def)
  have val: "relation_value (update_relation_rounded binary64 strained_alliance
               (5629499534213119 / 2 ^ 50)) = - 80"
    unfolding update_relation_rounded_value v minus_85_plus_boundary by simp
  show ?thesis
    using a val by (simp add: update_relation_rounded_alliance)
qed

text \<open>The statement for any delta fails at the delta 10: the value becomes
  -75 and the alliance is kept.\<close>

theorem update_relation_any_delta_counterexample:
  "relation_value strained_alliance = - 85 \<and> alliance strained_alliance
   \<and> relation_value (update_relation strained_alliance 10) = - 75
   \<and> alliance (update_relation strained_alliance 10)"
  by (simp add: strained_alliance_def update_relation_alliance)

subsection \<open>The store and the relation dictionary\<close>

lemma get_relation_set_relation [simp]:
  "get_relation (set_relation w k r) a t =
     (if get_relation_key a t = k then Some r else get_relation w a t)"
  by (simp add: get_relation_def set_relation_def update_conv')

lemma get_relation_map_economy [simp]:
  "get_relation (map_economy w n f) a t = get_relation w a t"
  by (simp add: get_relation_def map_economy_def)

lemma get_relation_map_population [simp]:
  "get_relation (map_population w n f) a t = get_relation w a t"
  by (simp add: get_relation_def map_population_def)

lemma get_relation_recent_actions [simp]:
  "get_relation (w\<lparr> recent_actions := l \<rparr>) a t = get_relation w a t"
  by (simp add: get_relation_def)

lemma countries_set_relation [simp]: "countries (set_relation w k r) = countries w"
  by (simp add: set_relation_def)

lemma economy_map_economy [simp]:
  "economy (countries (map_economy w n f) m) =
     (if m = n then f (economy (countries w n)) else economy (countries w m))"
  by (simp add: map_economy_def)

lemma economy_map_population [simp]:
  "economy (countries (map_population w n f) m) = economy (countries w m)"
  by (simp add: map_population_def)

lemma economy_map_government [simp]:
  "economy (countries (map_government w n f) m) = economy (countries w m)"
  by (simp add: map_government_def)

lemma relations_map_country [simp]:
  "relations (map_economy w n fe) = relations w"
  "relations (map_population w n fp) = relations w"
  "relations (map_government w n fg) = relations w"
  by (simp_all add: map_economy_def map_population_def map_government_def)

lemma key_Astraland_Bellaia:
  "get_relation_key ''Astraland'' ''Bellaia'' = (''Astraland'', ''Bellaia'')"
  by (simp add: get_relation_key_def)

lemma example_world_relation:
  "get_relation example_world ''Astraland'' ''Bellaia'' = Some example_relation"
  by (simp add: get_relation_def example_world_def key_Astraland_Bellaia)

subsection \<open>Declaring war\<close>

text \<open>C2. For two distinct countries with a relation \<open>r\<close>: \<open>WAR_DECLARATION\<close> on an
  alliance returns \<open>success = false\<close> and the state as it was; otherwise it
  succeeds, the relation is at war with no alliance and no trade deal, its value
  is the old value minus 30, clamped to [-100,100], and the military spending of
  both countries has grown by 0.05.\<close>

theorem war_declaration_rule:
  assumes rel: "get_relation w a t = Some r" and neq: "a \<noteq> t"
  shows "(alliance r \<longrightarrow>
            perform_diplomatic_action w a t WAR_DECLARATION p i
              = (False, ''Cannot declare war on ally'', w))
       \<and> (\<not> alliance r \<longrightarrow>
            fst (perform_diplomatic_action w a t WAR_DECLARATION p i)
          \<and> (\<exists>r'. get_relation (snd (snd (perform_diplomatic_action w a t WAR_DECLARATION p i))) a t
                     = Some r'
                 \<and> at_war r' \<and> \<not> alliance r' \<and> \<not> trade_deal r'
                 \<and> relation_value r' = max (- 100) (min 100 (relation_value r - 30)))
          \<and> military_spending (economy (countries
                (snd (snd (perform_diplomatic_action w a t WAR_DECLARATION p i))) a))
              = military_spending (economy (countries w a)) + 0.05
          \<and> military_spending (economy (countries
                (snd (snd (perform_diplomatic_action w a t WAR_DECLARATION p i))) t))
              = military_spending (economy (countries w t)) + 0.05)"
  using rel neq
  by (simp add: perform_diplomatic_action_def apply_action_def Let_def
      update_relation_alliance update_relation_trade_deal)

text \<open>Astraland declares war on Bellaia: rejected when they are allied, and with
  the example relation both military shares go from 0.10 to 0.15.\<close>

theorem war_declaration_rule_witness:
  "get_relation example_world ''Astraland'' ''Bellaia'' = Some example_relation
   \<and> get_relation allied_world ''Astraland'' ''Bellaia''
       = Some (example_relation\<lparr> relation_value := 70, alliance := True \<rparr>)
   \<and> ''Astraland'' \<noteq> ''Bellaia''
   \<and> perform_diplomatic_action allied_world ''Astraland'' ''Bellaia'' WAR_DECLARATION True 0
       = (False, ''Cannot declare war on ally'', allied_world)
   \<and> fst (perform_diplomatic_action example_world ''Astraland'' ''Bellaia'' WAR_DECLARATION True 0)
   \<and> military_spending (economy (countries (snd (snd (perform_diplomatic_action example_world
          ''Astraland'' ''Bellaia'' WAR_DECLARATION True 0))) ''Astraland'')) = 0.15
   \<and> military_spending (economy (countries (snd (snd (perform_diplomatic_action example_world
          ''Astraland'' ''Bellaia'' WAR_DECLARATION True 0))) ''Bellaia'')) = 0.15"
proof -
  note rel = example_world_relation
  have rel': "get_relation allied_world ''Astraland'' ''Bellaia''
                = Some (example_relation\<lparr> relation_value := 70, alliance := True \<rparr>)"
    by (simp add: allied_world_def key_Astraland_Bellaia)
  have neq: "''Astraland'' \<noteq> ''Bellaia''" by simp
  have na: "\<not> alliance example_relation" by (simp add: example_relation_def)
  have ma: "military_spending (economy (countries example_world ''Astraland'')) = 0.10"
    by (simp add: example_world_def example_country_def Economy_init_def)
  have mt: "military_spending (economy (countries example_world ''Bellaia'')) = 0.10"
    by (simp add: example_world_def example_country_def Economy_init_def)
  show ?thesis
    using war_declaration_rule [OF rel neq, of True 0]
      war_declaration_rule [OF rel' neq, of True 0] rel rel' na ma mt
    by simp
qed

subsection \<open>Foreign aid\<close>

text \<open>C10. For two distinct countries with a relation \<open>r\<close>: \<open>FOREIGN_AID\<close> succeeds
  exactly when the actor's GDP exceeds twice the target's GDP; on failure the
  state is unchanged; on success the actor's GDP has fallen and the target's has
  grown by 1% of the actor's GDP, and the relation value is the old value plus
  15, clamped to [-100,100].\<close>

theorem foreign_aid_exact:
  assumes rel: "get_relation w a t = Some r" and neq: "a \<noteq> t"
  shows "(fst (perform_diplomatic_action w a t FOREIGN_AID p i)
            \<longleftrightarrow> gdp (economy (countries w a)) > 2 * gdp (economy (countries w t)))
       \<and> (\<not> fst (perform_diplomatic_action w a t FOREIGN_AID p i)
            \<longrightarrow> snd (snd (perform_diplomatic_action w a t FOREIGN_AID p i)) = w)
       \<and> (fst (perform_diplomatic_action w a t FOREIGN_AID p i) \<longrightarrow>
            gdp (economy (countries (snd (snd (perform_diplomatic_action w a t FOREIGN_AID p i))) a))
              = gdp (economy (countries w a)) - gdp (economy (countries w a)) * 0.01
          \<and> gdp (economy (countries (snd (snd (perform_diplomatic_action w a t FOREIGN_AID p i))) t))
              = gdp (economy (countries w t)) + gdp (economy (countries w a)) * 0.01
          \<and> map_option relation_value
                (get_relation (snd (snd (perform_diplomatic_action w a t FOREIGN_AID p i))) a t)
              = Some (max (- 100) (min 100 (relation_value r + 15))))"
  using rel neq
  by (simp add: perform_diplomatic_action_def apply_action_def Let_def mult.commute)

text \<open>The scenario of the specification: Astraland (GDP 1,000,000) aids Bellaia
  (GDP 400,000); afterwards the GDPs are 990,000 and 410,000 and the relation
  value has gone from 0 to 15.\<close>

theorem foreign_aid_exact_witness:
  "get_relation example_world ''Astraland'' ''Bellaia'' = Some example_relation
   \<and> ''Astraland'' \<noteq> ''Bellaia''
   \<and> gdp (economy (countries example_world ''Astraland'')) = 1000000
   \<and> gdp (economy (countries example_world ''Bellaia'')) = 400000
   \<and> fst (perform_diplomatic_action example_world ''Astraland'' ''Bellaia'' FOREIGN_AID True 0)
   \<and> gdp (economy (countries (snd (snd (perform_diplomatic_action example_world
          ''Astraland'' ''Bellaia'' FOREIGN_AID True 0))) ''Astraland'')) = 990000
   \<and> gdp (economy (countries (snd (snd (perform_diplomatic_action example_world
          ''Astraland'' ''Bellaia'' FOREIGN_AID True 0))) ''Bellaia'')) = 410000
   \<and> map_option relation_value (get_relation (snd (snd (perform_diplomatic_action example_world
          ''Astraland'' ''Bellaia'' FOREIGN_AID True 0))) ''Astraland'' ''Bellaia'') = Some 15
   \<and> \<not> fst (perform_diplomatic_action example_world ''Bellaia'' ''Astraland'' FOREIGN_AID True 0)
   \<and> snd (snd (perform_diplomatic_action example_world ''Bellaia'' ''Astraland'' FOREIGN_AID True 0))
       = example_world"
proof -
  note rel = example_world_relation
  have rel': "get_relation example_world ''Bellaia'' ''Astraland'' = Some example_relation"
    by (simp add: get_relation_def example_world_def get_relation_key_def)
  have neq: "''Astraland'' \<noteq> ''Bellaia''" and neq': "''Bellaia'' \<noteq> ''Astraland''"
    by simp_all
  have ga: "gdp (economy (countries example_world ''Astraland'')) = 1000000"
    by (simp add: example_world_def example_country_def Economy_init_def)
  have gt: "gdp (economy (countries example_world ''Bellaia'')) = 400000"
    by (simp add: example_world_def example_country_def Economy_init_def)
  have rv: "relation_value example_relation = 0" by (simp add: example_relation_def)
  show ?thesis
    using foreign_aid_exact [OF rel neq, of True 0]
      foreign_aid_exact [OF rel' neq', of True 0] rel ga gt rv
    by simp
qed

subsection \<open>The spending shares under a declaration of war\<close>

lemma budget_world_relation:
  "get_relation budget_world ''Astraland'' ''Bellaia'' = Some example_relation"
  by (simp add: budget_world_def example_world_relation)

lemma budget_world_shares:
  "healthcare_spending (economy (countries budget_world ''Astraland'')) = 0.34"
  "education_spending (economy (countries budget_world ''Astraland'')) = 0.20"
  "military_spending (economy (countries budget_world ''Astraland'')) = 0.10"
  "infrastructure_spending (economy (countries budget_world ''Astraland'')) = 0.20"
  "welfare_spending (economy (countries budget_world ''Astraland'')) = 0.15"
  by (simp_all add: budget_world_def example_world_def example_country_def
      allocate_budget_def Economy_init_def set_share_def Let_def)

text \<open>C8. Astraland, constructed with the initial shares, sets its healthcare
  share to 0.34 with \<^verbatim>\<open>allocate_budget\<close>, so that its five shares add up to
  0.99, and then declares war on Bellaia: the declaration succeeds, the military
  share becomes 0.15 and the five shares add up to 1.04, above the bound of 1
  that the specification has every operation preserve.\<close>

theorem war_declaration_breaks_budget:
  "share_sum (economy (countries budget_world ''Astraland'')) = 0.99
   \<and> fst (perform_diplomatic_action budget_world ''Astraland'' ''Bellaia'' WAR_DECLARATION True 0)
   \<and> military_spending (economy (countries (snd (snd (perform_diplomatic_action budget_world
          ''Astraland'' ''Bellaia'' WAR_DECLARATION True 0))) ''Astraland'')) = 0.15
   \<and> share_sum (economy (countries (snd (snd (perform_diplomatic_action budget_world
          ''Astraland'' ''Bellaia'' WAR_DECLARATION True 0))) ''Astraland'')) = 1.04"
  by (simp add: perform_diplomatic_action_def budget_world_relation apply_action_def Let_def
      share_sum_def budget_world_shares example_relation_def)

section \<open>Government\<close>

subsection \<open>The first greatest element\<close>

lemma first_max_index_None: "first_max_index xs = None \<longleftrightarrow> xs = []"
  by (induction xs) (auto split: option.splits)

lemma first_max_index_bound: "first_max_index xs = Some j \<Longrightarrow> j < length xs"
  by (induction xs arbitrary: j) (auto split: option.splits if_splits)

lemma first_max_index_greatest:
  "first_max_index xs = Some j \<Longrightarrow> i < length xs \<Longrightarrow> xs ! i \<le> xs ! j"
proof (induction xs arbitrary: i j)
  case Nil
  then show ?case by simp
next
  case (Cons x xs)
  show ?case
  proof (cases "first_max_index xs")
    case None
    then have "xs = []" by (simp add: first_max_index_None)
    with Cons.prems show ?thesis by simp
  next
    case (Some k)
    note IH = Cons.IH [OF Some]
    show ?thesis
    proof (cases i)
      case 0
      with Cons.prems Some show ?thesis by (auto split: if_splits)
    next
      case (Suc i')
      with Cons.prems have "i' < length xs" by simp
      then have "xs ! i' \<le> xs ! k" by (rule IH)
      with Cons.prems Some Suc show ?thesis by (auto split: if_splits)
    qed
  qed
qed

subsection \<open>What each method leaves unchanged\<close>

lemma names_enumerate_map:
  assumes "\<And>i p. party_name (f i p) = party_name p"
  shows "map party_name (map (\<lambda>(i, p). f i p) (enumerate n ps)) = map party_name ps"
  using assms by (induction ps arbitrary: n) simp_all

lemma map_update_same: "(map f ps)[r := f (ps ! r)] = map f ps"
  by (cases "r < length ps") (simp_all add: list_update_same_conv list_update_beyond)

lemma names_list_update:
  "party_name q = party_name (ps ! r) \<Longrightarrow> map party_name (ps[r := q]) = map party_name ps"
  by (simp add: map_update map_update_same)

lemma update_party_popularity_eq:
  "update_party_popularity g a e =
     g\<lparr> parties := shifted_popularities (parties g) (ruling_party g) a e \<rparr>"
  by (simp only: update_party_popularity_def shifted_popularities_def Let_def)

lemma shifted_popularities_names:
  "map party_name (shifted_popularities ps r a e) = map party_name ps"
proof -
  define c where "c = ((a + e) / 2 - 50) * 0.002"
  define ps1 where "ps1 = ps[r := (ps ! r)\<lparr> popularity := popularity (ps ! r) + c \<rparr>]"
  define ps2 where "ps2 = (if c < 0 then
                             map (\<lambda>(i, p). if i \<noteq> r
                                    then p\<lparr> popularity := popularity p + \<bar>c\<bar> / real (length ps1) \<rparr>
                                    else p) (enumerate 0 ps1)
                           else ps1)"
  define tot where "tot = sum_list (map popularity ps2)"
  define ps3 where "ps3 = (if tot > 0 then map (\<lambda>p. p\<lparr> popularity := popularity p / tot \<rparr>) ps2
                           else ps2)"
  have n1: "map party_name ps1 = map party_name ps"
    unfolding ps1_def by (rule names_list_update) simp
  have "map party_name (map (\<lambda>(i, p). if i \<noteq> r
            then p\<lparr> popularity := popularity p + \<bar>c\<bar> / real (length ps1) \<rparr>
            else p) (enumerate 0 ps1)) = map party_name ps1"
    by (rule names_enumerate_map) simp
  then have n2: "map party_name ps2 = map party_name ps1"
    unfolding ps2_def by simp
  have n3: "map party_name ps3 = map party_name ps2"
    unfolding ps3_def by (simp add: comp_def)
  have "shifted_popularities ps r a e = ps3"
    unfolding shifted_popularities_def Let_def ps3_def tot_def ps2_def ps1_def c_def
    by simp
  with n1 n2 n3 show ?thesis by simp
qed

lemma shifted_popularities_length [simp]:
  "length (shifted_popularities ps r a e) = length ps"
  using arg_cong [OF shifted_popularities_names [of ps r a e], of length] by simp

lemma update_party_popularity_frame [simp]:
  "ruling_party (update_party_popularity g a e) = ruling_party g"
  "gtype (update_party_popularity g a e) = gtype g"
  "next_election (update_party_popularity g a e) = next_election g"
  "laws (update_party_popularity g a e) = laws g"
  "stability (update_party_popularity g a e) = stability g"
  "corruption (update_party_popularity g a e) = corruption g"
  "length (parties (update_party_popularity g a e)) = length (parties g)"
  by (simp_all add: update_party_popularity_eq)

lemma update_party_popularity_names:
  "map party_name (parties (update_party_popularity g a e)) = map party_name (parties g)"
  by (simp add: update_party_popularity_eq shifted_popularities_names)

lemma update_government_metrics_frame [simp]:
  "ruling_party (update_government_metrics g a e d) = ruling_party g"
  "gtype (update_government_metrics g a e d) = gtype g"
  "next_election (update_government_metrics g a e d) = next_election g"
  "laws (update_government_metrics g a e d) = laws g"
  by (simp_all add: update_government_metrics_def Let_def)

lemma update_government_metrics_parties:
  "parties (update_government_metrics g a e d) =
     shifted_popularities (parties g) (ruling_party g) a e"
  by (simp add: update_government_metrics_def Let_def update_party_popularity_eq)

lemma update_government_metrics_length [simp]:
  "length (parties (update_government_metrics g a e d)) = length (parties g)"
  by (simp add: update_government_metrics_parties)

lemma update_government_metrics_names:
  "map party_name (parties (update_government_metrics g a e d)) = map party_name (parties g)"
  by (simp add: update_government_metrics_parties shifted_popularities_names)

lemma update_government_metrics_corruption:
  "corruption (update_government_metrics g a e d) =
     max 0 (min 100 (corruption g + d * (1 - corruption_resistance (gtype g))))"
  by (simp add: update_government_metrics_def Let_def)

lemma update_government_metrics_stability:
  "stability (update_government_metrics g a e d) =
     max 0 (min 100 (stability g + (a - 50) * 0.2 * 0.1 + stability_bonus (gtype g)
        - corruption (update_government_metrics g a e d) * 0.1))"
  by (simp add: update_government_metrics_def Let_def)

lemma hold_election_names:
  assumes "hold_election g noise = Inr g'"
  shows "map party_name (parties g') = map party_name (parties g)"
proof -
  have en: "map party_name (map (\<lambda>(i, p). p\<lparr> popularity := popularity p + noise i \<rparr>)
               (enumerate 0 (parties g))) = map party_name (parties g)"
    by (rule names_enumerate_map) simp
  show ?thesis
    using assms en
    by (auto simp add: hold_election_def Let_def comp_def
        split: if_splits option.splits)
qed

lemma hold_election_ruling:
  assumes "hold_election g noise = Inr g'" and "ruling_party g < length (parties g)"
  shows "ruling_party g' < length (parties g')"
  using assms
  by (auto simp add: hold_election_def Let_def split: if_splits option.splits
      dest!: first_max_index_bound)

lemma hold_election_countdown:
  assumes "hold_election g noise = Inr g'" and "countdown_at_frequency g"
  shows "countdown_at_frequency g'"
  using assms
  by (auto simp add: hold_election_def Let_def countdown_at_frequency_def
      split: if_splits option.splits)

text \<open>An election that runs makes the first most popular party the ruling one.\<close>

lemma hold_election_most_popular:
  assumes "hold_election g noise = Inr g'" and "election_frequency (gtype g) \<noteq> 0"
  shows "ruling_most_popular g'"
proof -
  define ps1 where "ps1 = map (\<lambda>(i, p). p\<lparr> popularity := popularity p + noise i \<rparr>)
                            (enumerate 0 (parties g))"
  define tot where "tot = sum_list (map popularity ps1)"
  define ps2 where "ps2 = map (\<lambda>p. p\<lparr> popularity := max 0 (popularity p / tot) \<rparr>) ps1"
  from assms obtain winner where
    w: "first_max_index (map popularity ps2) = Some winner"
    and g': "parties g' = ps2" "ruling_party g' = winner"
    by (auto simp add: hold_election_def Let_def ps1_def tot_def ps2_def
        split: if_splits option.splits)
  have bound: "winner < length ps2"
    using first_max_index_bound [OF w] by simp
  have "popularity (ps2 ! i) \<le> popularity (ps2 ! winner)" if "i < length ps2" for i
    using first_max_index_greatest [OF w, of i] that bound by simp
  then show ?thesis
    unfolding ruling_most_popular_def g' list_all_length by simp
qed

lemma change_government_type_frame [simp]:
  "parties (change_government_type g s d) = parties g"
  "ruling_party (change_government_type g s d) = ruling_party g"
  by (simp_all add: change_government_type_def Let_def split: option.splits)

lemma change_government_type_countdown:
  "countdown_at_frequency g \<Longrightarrow> countdown_at_frequency (change_government_type g s d)"
  by (simp add: change_government_type_def Let_def countdown_at_frequency_def split: option.splits)

lemma pass_law_frame [simp]:
  "parties (pass_law g l v d) = parties g"
  "ruling_party (pass_law g l v d) = ruling_party g"
  "gtype (pass_law g l v d) = gtype g"
  "next_election (pass_law g l v d) = next_election g"
  by (simp_all add: pass_law_def Let_def split: option.splits)

lemma trigger_political_event_roster:
  "map party_name (parties (trigger_political_event g ev d1 d2 d3)) = map party_name (parties g)"
  "ruling_party (trigger_political_event g ev d1 d2 d3) = ruling_party g"
  "length (parties (trigger_political_event g ev d1 d2 d3)) = length (parties g)"
  by (simp_all add: trigger_political_event_def Let_def map_update map_update_same)

lemma trigger_political_event_countdown:
  "countdown_at_frequency g \<Longrightarrow> countdown_at_frequency (trigger_political_event g ev d1 d2 d3)"
  using change_government_type_countdown [of g "''dictatorship''" d2]
  by (simp add: trigger_political_event_def Let_def countdown_at_frequency_def)

subsection \<open>The election countdown\<close>

lemma election_not_due: "countdown_at_frequency g \<Longrightarrow> \<not> election_due g"
  by (simp add: countdown_at_frequency_def election_due_def)

lemma update_government_metrics_countdown:
  "countdown_at_frequency g \<Longrightarrow> countdown_at_frequency (update_government_metrics g a e d)"
  by (simp add: countdown_at_frequency_def)

lemma update_government_no_election:
  assumes "countdown_at_frequency g"
  shows "update_government g a e d noise = Inr (update_government_metrics g a e d)"
proof -
  have "countdown_at_frequency (update_government_metrics g a e d)"
    using assms by (rule update_government_metrics_countdown)
  then have "\<not> election_due (update_government_metrics g a e d)"
    by (rule election_not_due)
  then show ?thesis by (simp add: update_government_def Let_def)
qed

lemma gov_step_countdown:
  assumes "gov_step g op = Inr g'" and "countdown_at_frequency g"
  shows "countdown_at_frequency g'"
proof (cases op)
  case (Tick a e d noise)
  with assms update_government_no_election [OF assms(2), of a e d noise]
  show ?thesis by (auto simp add: countdown_at_frequency_def)
next
  case (HoldElection noise)
  with assms show ?thesis by (auto intro: hold_election_countdown)
next
  case (ChangeType s d)
  with assms show ?thesis by (auto intro: change_government_type_countdown)
next
  case (PoliticalEvent ev d1 d2 d3)
  with assms show ?thesis by (auto intro: trigger_political_event_countdown)
qed (use assms in \<open>auto simp add: countdown_at_frequency_def\<close>)

lemma gov_run_countdown:
  "gov_run g ops = Inr g' \<Longrightarrow> countdown_at_frequency g \<Longrightarrow> countdown_at_frequency g'"
proof (induction ops arbitrary: g)
  case Nil
  then show ?case by simp
next
  case (Cons op ops)
  then show ?case
    by (auto split: sum.splits dest: gov_step_countdown)
qed

lemma Government_init_countdown:
  "Government_init s d1 d2 d3 d4 = Inr g \<Longrightarrow> countdown_at_frequency g"
  by (auto simp add: Government_init_def Let_def countdown_at_frequency_def
      split: option.splits)

text \<open>The example government and the states derived from it.\<close>

lemma initial_parties_popularity:
  "map popularity (initial_parties d1 d2 d3 d4) = [0.25, 0.25, 0.30, 0.20]"
  by (simp add: initial_parties_def PoliticalParty_init_def split: prod.splits)

lemma initial_parties_names:
  "map party_name (initial_parties d1 d2 d3 d4) = roster_names"
  by (simp add: initial_parties_def PoliticalParty_init_def roster_names_def split: prod.splits)

lemma initial_first_max: "first_max_index [0.25, 0.25, 0.30, 0.20 :: real] = Some 2"
  by simp

lemma example_government_eq:
  "example_government =
     \<lparr> gtype = Democracy, stability = 70, corruption = 20, years_in_power = 0,
       next_election = 4,
       parties = initial_parties left_draws right_draws centre_draws right_draws,
       ruling_party = 2, laws = initial_laws, bureaucracy_efficiency = 60, transparency = 50 \<rparr>"
  by (simp add: example_government_def Government_init_def gov_kind_of_def Let_def
      initial_parties_popularity)

lemma example_government_init:
  "Government_init ''democracy'' left_draws right_draws centre_draws right_draws
     = Inr example_government"
  by (simp add: example_government_eq Government_init_def gov_kind_of_def Let_def
      initial_parties_popularity)

lemma example_government_fields:
  "gtype example_government = Democracy" "stability example_government = 70"
  "corruption example_government = 20" "next_election example_government = 4"
  "ruling_party example_government = 2"
  "parties example_government
     = initial_parties left_draws right_draws centre_draws right_draws"
  "laws example_government = initial_laws"
  by (simp_all add: example_government_eq)

lemma unpopular_government_fields:
  "gtype unpopular_government = Democracy"
  "ruling_party unpopular_government = 2"
  "next_election unpopular_government = 4"
  by (simp_all add: unpopular_government_def example_government_fields)

lemma unpopular_government_parties:
  "parties unpopular_government =
     map2 (\<lambda>p v. p\<lparr> popularity := v \<rparr>)
       (initial_parties left_draws right_draws centre_draws right_draws)
       [53 / 197, 53 / 197, 48 / 197, 43 / 197]"
  by (simp add: unpopular_government_def update_government_metrics_parties
      shifted_popularities_def Let_def example_government_fields initial_parties_def
      PoliticalParty_init_def left_draws_def right_draws_def centre_draws_def)

lemma unpopular_government_tick:
  "update_government example_government 20 20 0 (\<lambda>i. 0) = Inr unpopular_government"
proof -
  have "countdown_at_frequency example_government"
    by (simp add: countdown_at_frequency_def example_government_fields)
  then show ?thesis
    unfolding unpopular_government_def by (rule update_government_no_election)
qed

lemma elected_government_fields:
  "hold_election unpopular_government (\<lambda>i. 0) = Inr elected_government"
  "ruling_party elected_government = 0"
  by (simp_all add: elected_government_def hold_election_def Let_def unpopular_government_fields
        unpopular_government_parties initial_parties_def PoliticalParty_init_def
        left_draws_def right_draws_def centre_draws_def)

text \<open>C7, as amended. In every state that a run of operations reaches from a
  constructed government, \<open>next_election\<close> is the election frequency of the
  current type: it is assigned only at construction, by \<^verbatim>\<open>hold_election\<close> and by
  \<^verbatim>\<open>change_government_type\<close>, always to that value, and nothing counts it
  down. After every operation it is again the frequency of the type then
  current, so an operation that keeps the type keeps \<open>next_election\<close>, and it
  falls only when the type changes to one with a lower frequency. The election
  check of \<^verbatim>\<open>update_government\<close> (countdown at most 0 and a positive frequency)
  is false in every such state, and \<^verbatim>\<open>update_government\<close> is the update of the
  metrics alone, which leaves \<open>next_election\<close> as it is: an election is never
  held by a tick.\<close>

theorem next_election_never_counts_down:
  assumes "Government_init s d1 d2 d3 d4 = Inr g0" and "gov_run g0 ops = Inr g"
  shows "next_election g = election_frequency (gtype g)
       \<and> \<not> election_due g
       \<and> update_government g approval eh draw noise
           = Inr (update_government_metrics g approval eh draw)
       \<and> next_election (update_government_metrics g approval eh draw) = next_election g
       \<and> (gov_step g op = Inr g' \<longrightarrow> next_election g' = election_frequency (gtype g'))
       \<and> (gov_step g op = Inr g' \<and> gtype g' = gtype g \<longrightarrow> next_election g' = next_election g)"
proof -
  have c: "countdown_at_frequency g"
    using assms by (blast intro: gov_run_countdown Government_init_countdown)
  have s: "next_election g' = election_frequency (gtype g')" if "gov_step g op = Inr g'"
    using gov_step_countdown [OF that c] by (simp add: countdown_at_frequency_def)
  then have "next_election g' = next_election g" if "gov_step g op = Inr g'" "gtype g' = gtype g"
    using that c by (simp add: countdown_at_frequency_def)
  with s show ?thesis
    using update_government_no_election [OF c] election_not_due [OF c] c
    by (simp add: countdown_at_frequency_def)
qed

text \<open>A democracy after a tick, a change to a republic and a protest: the
  countdown is the 6 of a republic, the next tick holds no election, passing a
  law leaves the countdown at 6, and a change back to a democracy sets it to 4.\<close>

theorem next_election_never_counts_down_witness:
  "Government_init ''democracy'' left_draws right_draws centre_draws right_draws
     = Inr example_government
   \<and> gov_run example_government
        [Tick 20 20 0 (\<lambda>i. 0), ChangeType ''republic'' 15, PoliticalEvent ''protest'' 3 0 0]
        = Inr reformed_government
   \<and> next_election reformed_government = 6
   \<and> \<not> election_due reformed_government
   \<and> update_government reformed_government 20 20 0 (\<lambda>i. 0)
        = Inr (update_government_metrics reformed_government 20 20 0)
   \<and> gov_step reformed_government (PassLaw ''gun_control'' False 1)
        = Inr (pass_law reformed_government ''gun_control'' False 1)
   \<and> gtype (pass_law reformed_government ''gun_control'' False 1) = gtype reformed_government
   \<and> next_election (pass_law reformed_government ''gun_control'' False 1) = 6
   \<and> gov_step reformed_government (ChangeType ''democracy'' 12)
        = Inr (change_government_type reformed_government ''democracy'' 12)
   \<and> next_election (change_government_type reformed_government ''democracy'' 12) = 4"
proof -
  note init = example_government_init
  have run: "gov_run example_government
        [Tick 20 20 0 (\<lambda>i. 0), ChangeType ''republic'' 15, PoliticalEvent ''protest'' 3 0 0]
        = Inr reformed_government"
    using unpopular_government_tick by (simp add: reformed_government_def)
  have t: "gtype reformed_government = Republic"
    by (simp add: reformed_government_def trigger_political_event_def
        change_government_type_def gov_kind_of_def Let_def unpopular_government_fields)
  have st: "gov_step reformed_government (PassLaw ''gun_control'' False 1)
              = Inr (pass_law reformed_government ''gun_control'' False 1)"
    by simp
  have ty: "gtype (pass_law reformed_government ''gun_control'' False 1) = gtype reformed_government"
    by simp
  have st': "gov_step reformed_government (ChangeType ''democracy'' 12)
              = Inr (change_government_type reformed_government ''democracy'' 12)"
    by simp
  have ty': "gtype (change_government_type reformed_government ''democracy'' 12) = Democracy"
    by (simp add: change_government_type_def gov_kind_of_def Let_def t)
  show ?thesis
    using next_election_never_counts_down [OF init run,
        where approval = 20 and eh = 20 and draw = 0 and noise = "\<lambda>i. 0"
          and op = "PassLaw ''gun_control'' False 1"
          and g' = "pass_law reformed_government ''gun_control'' False 1"]
      next_election_never_counts_down [OF init run,
        where approval = 20 and eh = 20 and draw = 0 and noise = "\<lambda>i. 0"
          and op = "ChangeType ''democracy'' 12"
          and g' = "change_government_type reformed_government ''democracy'' 12"]
      init run t st ty st' ty'
    by simp
qed

text \<open>The statement that no operation ever decreases \<open>next_election\<close> fails for
  \<^verbatim>\<open>change_government_type\<close>: on the constructed democracy a change to a
  monarchy takes it from 4 to 0, and on the republic reached above a change to a
  democracy takes it from 6 to 4.\<close>

theorem next_election_decreases_counterexample:
  "Government_init ''democracy'' left_draws right_draws centre_draws right_draws
     = Inr example_government
   \<and> next_election example_government = 4
   \<and> gov_step example_government (ChangeType ''monarchy'' 15)
        = Inr (change_government_type example_government ''monarchy'' 15)
   \<and> next_election (change_government_type example_government ''monarchy'' 15) = 0
   \<and> gov_run example_government
        [Tick 20 20 0 (\<lambda>i. 0), ChangeType ''republic'' 15, PoliticalEvent ''protest'' 3 0 0]
        = Inr reformed_government
   \<and> next_election reformed_government = 6
   \<and> next_election (change_government_type reformed_government ''democracy'' 12) = 4"
proof -
  have run: "gov_run example_government
        [Tick 20 20 0 (\<lambda>i. 0), ChangeType ''republic'' 15, PoliticalEvent ''protest'' 3 0 0]
        = Inr reformed_government"
    using unpopular_government_tick by (simp add: reformed_government_def)
  have r: "next_election reformed_government = 6"
    by (simp add: reformed_government_def trigger_political_event_def
        change_government_type_def gov_kind_of_def Let_def unpopular_government_fields)
  show ?thesis
    using run r
    by (simp add: example_government_init example_government_fields
        change_government_type_def gov_kind_of_def Let_def)
qed

subsection \<open>The ruling party\<close>

lemma Government_init_Inr:
  "Government_init s d1 d2 d3 d4 = Inr g \<Longrightarrow>
     parties g = initial_parties d1 d2 d3 d4 \<and> ruling_party g = 2"
  by (auto simp add: Government_init_def Let_def initial_parties_popularity initial_first_max
      split: option.splits)

lemma Government_init_roster:
  assumes "Government_init s d1 d2 d3 d4 = Inr g"
  shows "ruling_in_roster g" and "ruling_most_popular g"
proof -
  from Government_init_Inr [OF assms]
  have p: "parties g = initial_parties d1 d2 d3 d4" and r: "ruling_party g = 2" by simp_all
  show "ruling_in_roster g"
    by (simp add: ruling_in_roster_def p r initial_parties_names)
       (simp add: initial_parties_def)
  show "ruling_most_popular g"
    by (simp add: ruling_most_popular_def p r initial_parties_def PoliticalParty_init_def
        split: prod.splits)
qed

lemma gov_step_roster:
  assumes "gov_step g op = Inr g'" and "ruling_in_roster g"
  shows "ruling_in_roster g'"
proof (cases op)
  case (Tick a e d noise)
  show ?thesis
  proof (cases "election_due (update_government_metrics g a e d)")
    case True
    with assms Tick have h: "hold_election (update_government_metrics g a e d) noise = Inr g'"
      by (simp add: update_government_def Let_def)
    from assms(2) have "ruling_party (update_government_metrics g a e d)
                          < length (parties (update_government_metrics g a e d))"
      by (simp add: ruling_in_roster_def)
    from hold_election_names [OF h] hold_election_ruling [OF h this] assms(2)
    show ?thesis by (simp add: ruling_in_roster_def update_government_metrics_names)
  next
    case False
    with assms Tick have "g' = update_government_metrics g a e d"
      by (simp add: update_government_def Let_def)
    with assms(2) show ?thesis
      by (simp add: ruling_in_roster_def update_government_metrics_names)
  qed
next
  case (UpdatePopularity a e)
  with assms show ?thesis
    by (auto simp add: ruling_in_roster_def update_party_popularity_names)
next
  case (HoldElection noise)
  with assms have h: "hold_election g noise = Inr g'" by simp
  from assms(2) have "ruling_party g < length (parties g)" by (simp add: ruling_in_roster_def)
  from hold_election_names [OF h] hold_election_ruling [OF h this] assms(2)
  show ?thesis by (simp add: ruling_in_roster_def)
next
  case (ChangeType s d)
  with assms show ?thesis by (auto simp add: ruling_in_roster_def)
next
  case (PassLaw l v d)
  with assms show ?thesis by (auto simp add: ruling_in_roster_def)
next
  case (PoliticalEvent ev d1 d2 d3)
  with assms show ?thesis
    by (auto simp add: ruling_in_roster_def trigger_political_event_roster)
next
  case WarAttrition
  with assms show ?thesis by (auto simp add: ruling_in_roster_def)
qed

lemma gov_run_roster:
  "gov_run g ops = Inr g' \<Longrightarrow> ruling_in_roster g \<Longrightarrow> ruling_in_roster g'"
proof (induction ops arbitrary: g)
  case Nil
  then show ?case by simp
next
  case (Cons op ops)
  then show ?case
    by (auto split: sum.splits dest: gov_step_roster)
qed

text \<open>C6, as amended. In every state that a run of operations
  (\<^verbatim>\<open>update_government\<close>, \<^verbatim>\<open>update_party_popularity\<close>, \<^verbatim>\<open>hold_election\<close>,
  \<^verbatim>\<open>trigger_political_event\<close> and the others) reaches from a constructed
  government, the roster is the fixed list of four parties and \<open>ruling_party\<close>
  refers to a member of it. The ruling party is the party with the highest popularity
  at construction and right after an election that runs (a type with a non-zero
  election frequency); nothing is claimed of the states in between.\<close>

theorem ruling_party_in_roster:
  assumes "Government_init s d1 d2 d3 d4 = Inr g0" and "gov_run g0 ops = Inr g"
  shows "ruling_most_popular g0
       \<and> length (parties g) = 4
       \<and> map party_name (parties g) = roster_names
       \<and> ruling_party g < length (parties g)
       \<and> parties g ! ruling_party g \<in> set (parties g)
       \<and> (election_frequency (gtype g) \<noteq> 0 \<and> hold_election g noise = Inr g'
            \<longrightarrow> ruling_most_popular g')"
proof -
  have r: "ruling_in_roster g"
    using assms by (blast intro: gov_run_roster Government_init_roster)
  then have "length (map party_name (parties g)) = length roster_names"
    by (simp add: ruling_in_roster_def)
  then have l: "length (parties g) = 4" by (simp add: roster_names_def)
  from r have "ruling_party g < length (parties g)" by (simp add: ruling_in_roster_def)
  then have m: "parties g ! ruling_party g \<in> set (parties g)" by (rule nth_mem)
  from l m r Government_init_roster(2) [OF assms(1)] show ?thesis
    by (auto simp add: ruling_in_roster_def intro: hold_election_most_popular)
qed

text \<open>The example democracy after one tick with approval 20: the roster is intact
  and the ruling party is still the one at index 2; an election held then makes
  the party at index 0 the ruling one, and it is the most popular.\<close>

theorem ruling_party_in_roster_witness:
  "Government_init ''democracy'' left_draws right_draws centre_draws right_draws
     = Inr example_government
   \<and> gov_run example_government [Tick 20 20 0 (\<lambda>i. 0)] = Inr unpopular_government
   \<and> election_frequency (gtype unpopular_government) \<noteq> 0
   \<and> hold_election unpopular_government (\<lambda>i. 0) = Inr elected_government
   \<and> ruling_most_popular example_government
   \<and> map party_name (parties unpopular_government) = roster_names
   \<and> ruling_party unpopular_government = 2
   \<and> ruling_party elected_government = 0
   \<and> ruling_most_popular elected_government"
proof -
  note init = example_government_init
  have run: "gov_run example_government [Tick 20 20 0 (\<lambda>i. 0)] = Inr unpopular_government"
    using unpopular_government_tick by simp
  have f: "election_frequency (gtype unpopular_government) \<noteq> 0"
    by (simp add: unpopular_government_fields)
  show ?thesis
    using ruling_party_in_roster [OF init run, of "\<lambda>i. 0" elected_government]
      init run f elected_government_fields unpopular_government_fields
    by simp
qed

text \<open>The statement for every reachable state fails after one tick of the
  constructed democracy with an approval of 20 and an economic health of 20: no
  election is held, the
  ruling party is still the Centrist Alliance (index 2), and its popularity,
  48/197, is below the 53/197 of the Progressive Party (index 0).\<close>

theorem ruling_party_not_most_popular_counterexample:
  "Government_init ''democracy'' left_draws right_draws centre_draws right_draws
     = Inr example_government
   \<and> update_government example_government 20 20 0 (\<lambda>i. 0) = Inr unpopular_government
   \<and> ruling_party unpopular_government = 2
   \<and> popularity (parties unpopular_government ! 2) = 48 / 197
   \<and> popularity (parties unpopular_government ! 0) = 53 / 197
   \<and> popularity (parties unpopular_government ! ruling_party unpopular_government)
        < popularity (parties unpopular_government ! 0)"
  by (simp add: example_government_init unpopular_government_tick unpopular_government_fields
      unpopular_government_parties initial_parties_def)

section \<open>The ranges of happiness, stability and corruption\<close>

subsection \<open>Repeated ticks\<close>

lemma ticks_run:
  "countdown_at_frequency g \<Longrightarrow>
     gov_run g (replicate n (Tick a e d noise))
       = Inr (((\<lambda>g. update_government_metrics g a e d) ^^ n) g)"
proof (induction n arbitrary: g)
  case 0
  then show ?case by simp
next
  case (Suc n)
  have step: "update_government g a e d noise = Inr (update_government_metrics g a e d)"
    using Suc.prems by (rule update_government_no_election)
  have "countdown_at_frequency (update_government_metrics g a e d)"
    using Suc.prems by (rule update_government_metrics_countdown)
  from Suc.IH [OF this] step show ?case
    by (simp add: funpow_Suc_right del: funpow.simps)
qed

lemma ticks_frame:
  "gtype (((\<lambda>g. update_government_metrics g a e d) ^^ n) g) = gtype g
   \<and> laws (((\<lambda>g. update_government_metrics g a e d) ^^ n) g) = laws g"
  by (induction n) simp_all

lemma corruption_step_arith:
  fixes c :: real
  assumes "0 \<le> c" "c \<le> 100"
  shows "min 100 (max 0 (min 100 (c + 0.18)) + 0.18 * real n) = min 100 (c + 0.18 * real (Suc n))"
proof -
  have rn: "0 \<le> real n" by simp
  have e: "real (Suc n) = real n + 1" by simp
  show ?thesis
    unfolding e using assms rn by (simp add: max_def min_def distrib_left)
qed

lemma stability_step_arith:
  fixes s :: real
  assumes "0 \<le> s" "s \<le> 100"
  shows "max 0 (max 0 (min 100 (s - 2.5)) - 2.5 * real n) = max 0 (s - 2.5 * real (Suc n))"
proof -
  have rn: "0 \<le> real n" by simp
  have e: "real (Suc n) = real n + 1" by simp
  show ?thesis
    unfolding e using assms rn by (simp add: max_def min_def distrib_left)
qed

text \<open>A democracy with a corruption of 20 whose approval stays at 20 loses 2.5
  points of stability per tick until the clamp holds it at 0.\<close>

lemma ticks_stability_collapse:
  assumes "gtype g = Democracy" and "corruption g = 20"
    and "0 \<le> stability g" and "stability g \<le> 100"
  shows "corruption (((\<lambda>g. update_government_metrics g 20 0 0) ^^ n) g) = 20
       \<and> stability (((\<lambda>g. update_government_metrics g 20 0 0) ^^ n) g)
           = max 0 (stability g - 2.5 * real n)"
  using assms
proof (induction n arbitrary: g)
  case 0
  then show ?case by simp
next
  case (Suc n)
  let ?g1 = "update_government_metrics g 20 0 0"
  have t: "gtype ?g1 = Democracy" using Suc.prems(1) by simp
  have c: "corruption ?g1 = 20"
    using Suc.prems by (simp add: update_government_metrics_corruption)
  have s: "stability ?g1 = max 0 (min 100 (stability g - 2.5))"
    using Suc.prems c by (simp add: update_government_metrics_stability)
  have b: "0 \<le> stability ?g1" "stability ?g1 \<le> 100"
    unfolding s by simp_all
  have "max 0 (stability ?g1 - 2.5 * real n) = max 0 (stability g - 2.5 * real (Suc n))"
    unfolding s using Suc.prems(3,4) by (rule stability_step_arith)
  with Suc.IH [OF t c b] show ?case
    by (simp add: funpow_Suc_right del: funpow.simps)
qed

text \<open>With a corruption draw of 0.9 at every tick the corruption of a democracy
  grows by 0.18 per tick until the clamp holds it at 100.\<close>

lemma ticks_corruption_saturates:
  assumes "gtype g = Democracy" and "0 \<le> corruption g" and "corruption g \<le> 100"
  shows "corruption (((\<lambda>g. update_government_metrics g 50 50 0.9) ^^ n) g)
           = min 100 (corruption g + 0.18 * real n)"
  using assms
proof (induction n arbitrary: g)
  case 0
  then show ?case by simp
next
  case (Suc n)
  let ?g1 = "update_government_metrics g 50 50 0.9"
  have t: "gtype ?g1 = Democracy" using Suc.prems(1) by simp
  have c: "corruption ?g1 = max 0 (min 100 (corruption g + 0.18))"
    using Suc.prems by (simp add: update_government_metrics_corruption)
  have b: "0 \<le> corruption ?g1" "corruption ?g1 \<le> 100"
    unfolding c by simp_all
  have "min 100 (corruption ?g1 + 0.18 * real n) = min 100 (corruption g + 0.18 * real (Suc n))"
    unfolding c using Suc.prems(2,3) by (rule corruption_step_arith)
  with Suc.IH [OF t b] show ?case
    by (simp add: funpow_Suc_right del: funpow.simps)
qed

subsection \<open>The states at the bounds\<close>

lemma collapsed_government_run:
  "gov_run example_government (replicate 30 (Tick 20 0 0 (\<lambda>i. 0))) = Inr collapsed_government"
  unfolding collapsed_government_def
  by (rule ticks_run) (simp add: countdown_at_frequency_def example_government_fields)

lemma collapsed_government_fields:
  "stability collapsed_government = 0"
  "laws collapsed_government = initial_laws"
  using ticks_stability_collapse [of example_government 30]
    ticks_frame [where a = 20 and e = 0 and d = 0 and n = 30 and g = example_government]
  by (simp_all add: collapsed_government_def example_government_fields)

lemma corrupt_government_run:
  "gov_run example_government (replicate 445 (Tick 50 50 0.9 (\<lambda>i. 0))) = Inr corrupt_government"
  unfolding corrupt_government_def
  by (rule ticks_run) (simp add: countdown_at_frequency_def example_government_fields)

lemma corrupt_government_fields: "corruption corrupt_government = 100"
  using ticks_corruption_saturates [of example_government 445]
  by (simp add: corrupt_government_def example_government_fields)

lemma unhappy_population_happiness: "happiness unhappy_population = 0"
  by (simp add: unhappy_population_def update_population_happiness)

lemma pass_law_collapsed:
  "stability (pass_law collapsed_government ''gun_control'' False (- 2)) = - 2"
  by (simp add: pass_law_def collapsed_government_fields initial_laws_def Let_def)

lemma corruption_scandal_corrupt:
  "corruption (trigger_political_event corrupt_government ''corruption_scandal'' 5 5 0) = 105"
  by (simp add: trigger_political_event_def Let_def corrupt_government_fields)

lemma collapsed_world_fields:
  "countries collapsed_world n = (example_country n 1000000)
      \<lparr> population := unhappy_population, government := collapsed_government \<rparr>"
  "relations collapsed_world
     = [((''Astraland'', ''Bellaia''), example_relation\<lparr> relation_value := - 10 \<rparr>)]"
  by (simp_all add: collapsed_world_def)

lemma collapsed_world_relation:
  "get_relation collapsed_world ''Astraland'' ''Bellaia''
     = Some (example_relation\<lparr> relation_value := - 10 \<rparr>)"
  by (simp add: get_relation_def collapsed_world_fields key_Astraland_Bellaia)

lemma sanctions_collapsed:
  "fst (perform_diplomatic_action collapsed_world ''Astraland'' ''Bellaia'' SANCTIONS True 0)"
  "happiness (population (countries (snd (snd (perform_diplomatic_action collapsed_world
       ''Astraland'' ''Bellaia'' SANCTIONS True 0))) ''Bellaia'')) = - 5"
  by (simp_all add: perform_diplomatic_action_def collapsed_world_relation apply_action_def Let_def
      example_relation_def map_population_def map_economy_def set_relation_def
      collapsed_world_fields unhappy_population_happiness)

lemma at_war_world_fields:
  "relations at_war_world = [((''Astraland'', ''Bellaia''),
      example_relation\<lparr> relation_value := - 40, at_war := True \<rparr>)]"
  "population (countries at_war_world n) = unhappy_population"
  "government (countries at_war_world n) = collapsed_government"
  by (simp_all add: at_war_world_def perform_diplomatic_action_def collapsed_world_relation
      apply_action_def Let_def example_relation_def map_economy_def collapsed_world_fields
      set_relation_def key_Astraland_Bellaia update_relation_def)

lemma war_attrition:
  "stability (government (countries (resolve_wars at_war_world (\<lambda>i. 1 / 2)) ''Astraland'')) = - 0.1"
  "happiness (population (countries (resolve_wars at_war_world (\<lambda>i. 1 / 2)) ''Astraland'')) = - 0.1"
  by (simp_all add: resolve_wars_def at_war_world_fields resolve_war_def Let_def
      example_relation_def map_economy_def map_population_def map_government_def
      collapsed_government_fields unhappy_population_happiness)

text \<open>C1. The three quantities leave [0,100] on the paths that the
  specification lists, each from a state at a bound that the clamps of the tick
  produce. A constructed democracy has the stability 0 after 30 ticks with
  approval 20; from there \<^verbatim>\<open>pass_law\<close> with a draw of -2 gives the stability
  -2, and one pass of \<^verbatim>\<open>resolve_wars\<close> over a war of that country gives the stability -0.1
  and, with a happiness of 0, the happiness -0.1; \<open>SANCTIONS\<close> on a country whose
  happiness is 0 give -5. After 445 ticks with a corruption draw of 0.9 the
  corruption is 100, and a corruption scandal with a draw of 5 makes it 105.
  An epidemic with a draw of 15 takes a happiness of 8.75 to -6.25.\<close>

theorem unclamped_writes_leave_range:
  "gov_run example_government (replicate 30 (Tick 20 0 0 (\<lambda>i. 0))) = Inr collapsed_government
   \<and> stability collapsed_government = 0
   \<and> stability (pass_law collapsed_government ''gun_control'' False (- 2)) = - 2
   \<and> stability (government (countries at_war_world ''Astraland'')) = 0
   \<and> stability (government (countries
        (resolve_wars at_war_world (\<lambda>i. 1 / 2)) ''Astraland'')) = - 0.1
   \<and> happiness (population (countries at_war_world ''Astraland'')) = 0
   \<and> happiness (population (countries
        (resolve_wars at_war_world (\<lambda>i. 1 / 2)) ''Astraland'')) = - 0.1
   \<and> happiness (population (countries collapsed_world ''Bellaia'')) = 0
   \<and> fst (perform_diplomatic_action collapsed_world ''Astraland'' ''Bellaia'' SANCTIONS True 0)
   \<and> happiness (population (countries (snd (snd (perform_diplomatic_action collapsed_world
        ''Astraland'' ''Bellaia'' SANCTIONS True 0))) ''Bellaia'')) = - 5
   \<and> gov_run example_government (replicate 445 (Tick 50 50 0.9 (\<lambda>i. 0)))
        = Inr corrupt_government
   \<and> corruption corrupt_government = 100
   \<and> corruption (trigger_political_event corrupt_government ''corruption_scandal'' 5 5 0) = 105
   \<and> happiness (update_population (Population_init 1000000) 0.15 0.20 0.15 0 0) = 8.75
   \<and> happiness (handle_event (update_population (Population_init 1000000) 0.15 0.20 0.15 0 0)
        ''epidemic'' 10 15 0.96) = - 6.25"
  by (simp add: collapsed_government_run collapsed_government_fields pass_law_collapsed
      at_war_world_fields war_attrition collapsed_world_fields unhappy_population_happiness
      sanctions_collapsed corrupt_government_run corrupt_government_fields
      corruption_scandal_corrupt update_population_happiness handle_event_def)

end
